theory Spec2Isabelle
  imports Main
begin

section \<open>Python values used by \<^verbatim>\<open>scripts/validate_snapshot.py\<close>\<close>

subsection \<open>Text: \<^verbatim>\<open>str(int)\<close> and \<^verbatim>\<open>str.join\<close>\<close>

definition digit_char :: "nat \<Rightarrow> char" where
  "digit_char d = ''0123456789'' ! d"

fun str_nat :: "nat \<Rightarrow> string" where
  "str_nat n = (if n < 10 then [digit_char n] else str_nat (n div 10) @ [digit_char (n mod 10)])"

declare str_nat.simps [simp del]

text \<open>\<^verbatim>\<open>f"{n}"\<close> for a Python int: decimal digits, a minus sign when negative.\<close>

definition str_int :: "int \<Rightarrow> string" where
  "str_int i = (if i < 0 then CHR ''-'' # str_nat (nat (- i)) else str_nat (nat i))"

text \<open>\<^verbatim>\<open>sep.join(xs)\<close>.\<close>

fun py_join :: "string \<Rightarrow> string list \<Rightarrow> string" where
  "py_join sep [] = []"
| "py_join sep [x] = x"
| "py_join sep (x # y # ys) = x @ sep @ py_join sep (y # ys)"

definition newline :: string where
  "newline = [CHR 0x0A]"

subsection \<open>Floats\<close>

text \<open>
  A Python float is an IEEE binary64 value. A finite one is kept as its sign and its exact
  magnitude, a fraction of naturals (\<open>Finite neg num den\<close> is \<open>(-1)^neg * num / den\<close>), so
  that rounding, comparison and formatting are integer arithmetic.
\<close>

datatype pyfloat = Finite bool nat nat | Infinite bool | NaN

text \<open>\<^verbatim>\<open>int.bit_length()\<close>.\<close>

fun bit_length :: "nat \<Rightarrow> nat" where
  "bit_length n = (if n = 0 then 0 else Suc (bit_length (n div 2)))"

declare bit_length.simps [simp del]

text \<open>The integer nearest to \<open>a / b\<close>, a tie going to the even one.\<close>

definition round_half_even :: "nat \<Rightarrow> nat \<Rightarrow> nat" where
  "round_half_even a b =
     (let q = a div b; r = a mod b
      in if 2 * r < b then q
         else if b < 2 * r then q + 1
         else if even q then q else q + 1)"

text \<open>\<open>binade a b\<close> is the \<open>e\<close> with \<open>2^e \<le> a / b < 2^(e+1)\<close>, for positive \<open>a\<close> and \<open>b\<close>.\<close>

definition binade :: "nat \<Rightarrow> nat \<Rightarrow> int" where
  "binade a b =
     (let d = int (bit_length a) - int (bit_length b)
      in if b * 2 ^ nat d \<le> a * 2 ^ nat (- d) then d else d - 1)"

text \<open>
  Rounding the exact quotient \<open>a / b\<close> to the nearest binary64 magnitude, ties to even:
  53 significant bits, the smallest quantum being \<open>2^-1074\<close>. The result is the
  fraction (numerator, denominator); it reaches \<open>2^1024\<close> exactly when the value is
  too large for a float.
\<close>

definition round_to_double :: "nat \<Rightarrow> nat \<Rightarrow> nat \<times> nat" where
  "round_to_double a b =
     (if a = 0 then (0, 1)
      else let k = max (binade a b) (- 1022) - 52;
               n = round_half_even (a * 2 ^ nat (- k)) (b * 2 ^ nat k)
           in (n * 2 ^ nat k, 2 ^ nat (- k)))"

definition too_large :: "nat \<times> nat \<Rightarrow> bool" where
  "too_large f = (2 ^ 1024 * snd f \<le> fst f)"

datatype exn =
    SystemExit_code int
  | SystemExit_msg string
  | DBAPIError string
  | OverflowError
  | ZeroDivisionError

text \<open>
  \<^verbatim>\<open>a / b\<close> on Python ints: the correctly rounded quotient; \<^verbatim>\<open>ZeroDivisionError\<close> for a
  zero divisor, \<^verbatim>\<open>OverflowError\<close> when the result is too large for a float. A zero
  result carries the sign of the operands.
\<close>

definition py_truediv :: "int \<Rightarrow> int \<Rightarrow> exn + pyfloat" where
  "py_truediv a b =
     (if b = 0 then Inl ZeroDivisionError
      else let f = round_to_double (nat \<bar>a\<bar>) (nat \<bar>b\<bar>)
           in if too_large f then Inl OverflowError
              else Inr (Finite ((a < 0) \<noteq> (b < 0)) (fst f) (snd f)))"

text \<open>The float literal \<^verbatim>\<open>0.30\<close>: the double nearest to \<open>3/10\<close>.\<close>

definition float_0_30 :: pyfloat where
  "float_0_30 = (let f = round_to_double 3 10 in Finite False (fst f) (snd f))"

definition signed_num :: "bool \<Rightarrow> nat \<Rightarrow> int" where
  "signed_num neg n = (if neg then - int n else int n)"

text \<open>\<^verbatim>\<open>x > y\<close> on floats: false whenever an operand is NaN; \<open>-0.0\<close> equals \<open>0.0\<close>.\<close>

fun float_gt :: "pyfloat \<Rightarrow> pyfloat \<Rightarrow> bool" where
  "float_gt NaN y = False"
| "float_gt x NaN = False"
| "float_gt (Finite s1 n1 d1) (Finite s2 n2 d2) =
     (signed_num s2 n2 * int d1 < signed_num s1 n1 * int d2)"
| "float_gt (Finite s n d) (Infinite neg) = neg"
| "float_gt (Infinite neg) (Finite s n d) = (\<not> neg)"
| "float_gt (Infinite neg1) (Infinite neg2) = (\<not> neg1 \<and> neg2)"

text \<open>\<^verbatim>\<open>val * 100\<close> in binary64 (what the \<^verbatim>\<open>%\<close> presentation type does first).\<close>

fun float_times_100 :: "pyfloat \<Rightarrow> pyfloat" where
  "float_times_100 (Finite s n d) =
     (let f = round_to_double (100 * n) d
      in if too_large f then Infinite s else Finite s (fst f) (snd f))"
| "float_times_100 (Infinite s) = Infinite s"
| "float_times_100 NaN = NaN"

text \<open>
  \<^verbatim>\<open>f"{x:.2f}"\<close>: the decimal expansion of the exact binary value, correctly rounded to
  two places (ties to even), with the sign of the float.
\<close>

definition two_digits :: "nat \<Rightarrow> string" where
  "two_digits n = [digit_char (n div 10), digit_char (n mod 10)]"

fun format_2f :: "pyfloat \<Rightarrow> string" where
  "format_2f (Finite s n d) =
     (let h = round_half_even (100 * n) d
      in (if s then ''-'' else '''') @ str_nat (h div 100) @ ''.'' @ two_digits (h mod 100))"
| "format_2f (Infinite s) = (if s then ''-inf'' else ''inf'')"
| "format_2f NaN = ''nan''"

text \<open>\<^verbatim>\<open>f"{x:.2%}"\<close>.\<close>

definition format_2pct :: "pyfloat \<Rightarrow> string" where
  "format_2pct x = format_2f (float_times_100 x) @ ''%''"

section \<open>The Snapshot Accessor\<close>

text \<open>
  The checks reach the snapshot only through \<^verbatim>\<open>conn.execute(text(sql))\<close>. The SQL texts
  the script sends are fixed but for the table and column names interpolated into the
  counters query, so a statement is one of:
  \<^item> \<open>SELECT_deck_hash_not_8\<close>:
    \<^verbatim>\<open>SELECT deck_hash, COUNT(*) AS n FROM deck_cards GROUP BY deck_hash HAVING COUNT(*) <> 8 LIMIT 20;\<close>
  \<^item> \<open>SELECT_count_bad t uses_col wins_col\<close>:
    \<^verbatim>\<open>SELECT COUNT(*) FROM {t} WHERE {wins_col} > {uses_col} OR {wins_col} < 0 OR {uses_col} < 0;\<close>
  \<^item> \<open>SELECT_count_meta_deck_types\<close>: \<^verbatim>\<open>SELECT COUNT(*) FROM meta_deck_types;\<close>
  \<^item> \<open>SELECT_sum_uses_meta_deck_types\<close>: \<^verbatim>\<open>SELECT COALESCE(SUM(uses),0) FROM meta_deck_types;\<close>
  \<^item> \<open>SELECT_sum_uses_unknown\<close>:
    \<^verbatim>\<open>SELECT COALESCE(SUM(uses),0) FROM meta_deck_types WHERE deck_type ILIKE 'unknown';\<close>
  \<^item> \<open>SELECT_sum_uses_player_decks\<close>: \<^verbatim>\<open>SELECT COALESCE(SUM(uses),0) FROM player_decks;\<close>
  \<^item> \<open>SELECT_count_player\<close>: \<^verbatim>\<open>SELECT COUNT(*) FROM player;\<close>

  A connection answers a statement or raises. \<^verbatim>\<open>.scalar()\<close> gives the first column of the
  first row, \<^verbatim>\<open>None\<close> for SQL NULL or no row; \<^verbatim>\<open>.fetchall()\<close> gives the rows.
\<close>

datatype sql_rows = SELECT_deck_hash_not_8

datatype sql_scalar =
    SELECT_count_bad string string string
  | SELECT_count_meta_deck_types
  | SELECT_sum_uses_meta_deck_types
  | SELECT_sum_uses_unknown
  | SELECT_sum_uses_player_decks
  | SELECT_count_player

record conn =
  execute_scalar :: "sql_scalar \<Rightarrow> exn + int option"
  execute_fetchall :: "sql_rows \<Rightarrow> exn + (string \<times> int) list"

definition run_scalar :: "conn \<Rightarrow> sql_scalar \<Rightarrow> exn + int option" where
  "run_scalar c sql = execute_scalar c sql"

definition run_rows :: "conn \<Rightarrow> sql_rows \<Rightarrow> exn + (string \<times> int) list" where
  "run_rows c sql = execute_fetchall c sql"

section \<open>Check Results and the six checks\<close>

record CheckResult =
  name :: string
  ok :: bool
  details :: string

text \<open>\<^verbatim>\<open>int(x or 0)\<close> on what \<^verbatim>\<open>.scalar()\<close> returned.\<close>

definition int_or_0 :: "int option \<Rightarrow> int" where
  "int_or_0 x = (case x of None \<Rightarrow> 0 | Some v \<Rightarrow> v)"

definition sample_line :: "string \<times> int \<Rightarrow> string" where
  "sample_line r = ''  '' @ fst r @ '' -> '' @ str_int (snd r)"

definition check_deck_cards_integrity :: "conn \<Rightarrow> exn + CheckResult" where
  "check_deck_cards_integrity c =
     (case run_rows c SELECT_deck_hash_not_8 of
        Inl e \<Rightarrow> Inl e
      | Inr rows \<Rightarrow>
          if rows \<noteq> [] then
            Inr \<lparr>name = ''deck_cards: each deck_hash has exactly 8 cards'',
                 ok = False,
                 details = ''Found deck_hash with != 8 cards (showing up to 20):'' @ newline
                           @ py_join newline (map sample_line rows)\<rparr>
          else
            Inr \<lparr>name = ''deck_cards: each deck_hash has exactly 8 cards'',
                 ok = True, details = []\<rparr>)"

definition tables :: "(string \<times> string \<times> string) list" where
  "tables =
     [(''player_decks'', ''uses'', ''wins''),
      (''player_type_cards'', ''uses'', ''wins''),
      (''meta_deck_types'', ''uses'', ''wins''),
      (''meta_type_cards'', ''uses'', ''wins''),
      (''meta_type_deck_ids'', ''uses'', ''wins'')]"

text \<open>\<^verbatim>\<open>if n and int(n) > 0\<close>.\<close>

definition n_and_positive :: "int option \<Rightarrow> bool" where
  "n_and_positive n = (case n of None \<Rightarrow> False | Some v \<Rightarrow> v \<noteq> 0 \<and> 0 < v)"

text \<open>\<^verbatim>\<open>f"{n}"\<close> for the scalar: \<^verbatim>\<open>None\<close> would print as such.\<close>

definition str_scalar :: "int option \<Rightarrow> string" where
  "str_scalar n = (case n of None \<Rightarrow> ''None'' | Some v \<Rightarrow> str_int v)"

text \<open>The \<^verbatim>\<open>for t, uses_col, wins_col in tables\<close> loop, with the list \<^verbatim>\<open>bad\<close> it appends to.\<close>

fun wins_uses_loop :: "conn \<Rightarrow> (string \<times> string \<times> string) list \<Rightarrow> string list
                        \<Rightarrow> exn + string list" where
  "wins_uses_loop c [] bad = Inr bad"
| "wins_uses_loop c ((t, uses_col, wins_col) # ts) bad =
     (case run_scalar c (SELECT_count_bad t uses_col wins_col) of
        Inl e \<Rightarrow> Inl e
      | Inr n \<Rightarrow>
          wins_uses_loop c ts
            (if n_and_positive n then bad @ [t @ '' has '' @ str_scalar n @ '' bad rows'']
             else bad))"

definition check_wins_uses_sanity :: "conn \<Rightarrow> exn + CheckResult" where
  "check_wins_uses_sanity c =
     (case wins_uses_loop c tables [] of
        Inl e \<Rightarrow> Inl e
      | Inr bad \<Rightarrow>
          if bad \<noteq> [] then
            Inr \<lparr>name = ''wins/uses sanity (wins<=uses and non-negative)'',
                 ok = False, details = py_join ''; '' bad\<rparr>
          else
            Inr \<lparr>name = ''wins/uses sanity (wins<=uses and non-negative)'',
                 ok = True, details = []\<rparr>)"

definition check_meta_not_empty :: "conn \<Rightarrow> exn + CheckResult" where
  "check_meta_not_empty c =
     (case run_scalar c SELECT_count_meta_deck_types of
        Inl e \<Rightarrow> Inl e
      | Inr n \<Rightarrow>
          if n = None \<or> n = Some 0 then
            Inr \<lparr>name = ''meta sanity: meta_deck_types not empty'',
                 ok = False, details = ''meta_deck_types is empty''\<rparr>
          else
            Inr \<lparr>name = ''meta sanity: meta_deck_types not empty'',
                 ok = True, details = []\<rparr>)"

definition check_unknown_deck_type_explosion :: "conn \<Rightarrow> pyfloat \<Rightarrow> exn + CheckResult" where
  "check_unknown_deck_type_explosion c max_unknown_ratio =
     (case run_scalar c SELECT_sum_uses_meta_deck_types of
        Inl e \<Rightarrow> Inl e
      | Inr total_raw \<Rightarrow>
     (case run_scalar c SELECT_sum_uses_unknown of
        Inl e \<Rightarrow> Inl e
      | Inr unknown_raw \<Rightarrow>
          let total = int_or_0 total_raw; unknown = int_or_0 unknown_raw
          in if total = 0 then
               Inr \<lparr>name = ''deck_type sanity: unknown ratio'',
                    ok = False, details = ''meta_deck_types total uses is 0''\<rparr>
             else
               (case py_truediv unknown total of
                  Inl e \<Rightarrow> Inl e
                | Inr ratio \<Rightarrow>
                    if float_gt ratio max_unknown_ratio then
                      Inr \<lparr>name = ''deck_type sanity: unknown ratio'',
                           ok = False,
                           details = ''Unknown uses ratio too high: '' @ str_int unknown @ ''/''
                             @ str_int total @ '' = '' @ format_2pct ratio
                             @ '' (max '' @ format_2pct max_unknown_ratio @ '')''\<rparr>
                    else
                      Inr \<lparr>name = ''deck_type sanity: unknown ratio'',
                           ok = True,
                           details = ''Unknown ratio: '' @ str_int unknown @ ''/''
                             @ str_int total @ '' = '' @ format_2pct ratio\<rparr>)))"

definition check_totals_sanity_topn_vs_meta :: "conn \<Rightarrow> exn + CheckResult" where
  "check_totals_sanity_topn_vs_meta c =
     (case run_scalar c SELECT_sum_uses_player_decks of
        Inl e \<Rightarrow> Inl e
      | Inr topn_raw \<Rightarrow>
     (case run_scalar c SELECT_sum_uses_meta_deck_types of
        Inl e \<Rightarrow> Inl e
      | Inr meta_raw \<Rightarrow>
          let topn_obs = int_or_0 topn_raw; meta_obs = int_or_0 meta_raw
          in if topn_obs = 0 then
               Inr \<lparr>name = ''totals sanity: meta_obs between topn_obs and 2*topn_obs'',
                    ok = False,
                    details = ''topn_obs (SUM(player_decks.uses)) is 0; did ETL write player_decks?''\<rparr>
             else if meta_obs < topn_obs then
               Inr \<lparr>name = ''totals sanity: meta_obs between topn_obs and 2*topn_obs'',
                    ok = False,
                    details = ''meta_obs < topn_obs ('' @ str_int meta_obs @ '' < ''
                      @ str_int topn_obs @ '')''\<rparr>
             else if 2 * topn_obs < meta_obs then
               Inr \<lparr>name = ''totals sanity: meta_obs between topn_obs and 2*topn_obs'',
                    ok = False,
                    details = ''meta_obs > 2*topn_obs ('' @ str_int meta_obs @ '' > ''
                      @ str_int (2 * topn_obs) @ '')''\<rparr>
             else
               (case py_truediv meta_obs topn_obs of
                  Inl e \<Rightarrow> Inl e
                | Inr ratio \<Rightarrow>
                    Inr \<lparr>name = ''totals sanity: meta_obs between topn_obs and 2*topn_obs'',
                         ok = True,
                         details = ''topn_obs='' @ str_int topn_obs @ '', meta_obs=''
                           @ str_int meta_obs @ '', ratio='' @ format_2f ratio\<rparr>)))"

definition check_expected_topn_player_count :: "conn \<Rightarrow> int option \<Rightarrow> exn + CheckResult" where
  "check_expected_topn_player_count c expected_topn =
     (case expected_topn of
        None \<Rightarrow> Inr \<lparr>name = ''player count matches --top-n (skipped)'', ok = True, details = []\<rparr>
      | Some expected \<Rightarrow>
          (case run_scalar c SELECT_count_player of
             Inl e \<Rightarrow> Inl e
           | Inr n_raw \<Rightarrow>
               let n = int_or_0 n_raw
               in if n \<noteq> expected then
                    Inr \<lparr>name = ''player count matches --top-n'',
                         ok = False,
                         details = ''player table count = '' @ str_int n @ '', expected ''
                           @ str_int expected\<rparr>
                  else
                    Inr \<lparr>name = ''player count matches --top-n'',
                         ok = True, details = ''player='' @ str_int n\<rparr>))"

section \<open>The runner, the report and the script\<close>

text \<open>
  The \<^verbatim>\<open>with engine.connect() as conn:\<close> block of \<^verbatim>\<open>main\<close>: six calls in this order, each
  result appended to \<^verbatim>\<open>checks\<close>. The block has no \<^verbatim>\<open>try\<close>: an exception of a check leaves
  it at once.
\<close>

definition run_checks :: "conn \<Rightarrow> int option \<Rightarrow> pyfloat \<Rightarrow> exn + CheckResult list" where
  "run_checks c expected_topn max_unknown_ratio =
     (case check_deck_cards_integrity c of Inl e \<Rightarrow> Inl e | Inr r1 \<Rightarrow>
     (case check_wins_uses_sanity c of Inl e \<Rightarrow> Inl e | Inr r2 \<Rightarrow>
     (case check_meta_not_empty c of Inl e \<Rightarrow> Inl e | Inr r3 \<Rightarrow>
     (case check_expected_topn_player_count c expected_topn of Inl e \<Rightarrow> Inl e | Inr r4 \<Rightarrow>
     (case check_totals_sanity_topn_vs_meta c of Inl e \<Rightarrow> Inl e | Inr r5 \<Rightarrow>
     (case check_unknown_deck_type_explosion c max_unknown_ratio of Inl e \<Rightarrow> Inl e | Inr r6 \<Rightarrow>
        Inr [r1, r2, r3, r4, r5, r6]))))))"

text \<open>\<^verbatim>\<open>c.details.replace(chr(10), chr(10) + '      ')\<close>.\<close>

definition indent_details :: "string \<Rightarrow> string" where
  "indent_details d = concat (map (\<lambda>ch. if ch = CHR 0x0A then newline @ ''      '' else [ch]) d)"

text \<open>
  The \<^verbatim>\<open>for c in checks\<close> loop of \<^verbatim>\<open>main\<close>; the state is what has been printed (one string
  per \<^verbatim>\<open>print\<close> call) and the counter \<^verbatim>\<open>failed\<close>.
\<close>

fun report_loop :: "CheckResult list \<Rightarrow> string list \<Rightarrow> int \<Rightarrow> string list \<times> int" where
  "report_loop [] out failed = (out, failed)"
| "report_loop (c # cs) out failed =
     (let status = (if ok c then ''OK'' else ''FAIL'');
          out1 = out @ [''  - '' @ status @ '': '' @ name c];
          out2 = (if details c \<noteq> [] then out1 @ [''      '' @ indent_details (details c)]
                  else out1)
      in report_loop cs out2 (if \<not> ok c then failed + 1 else failed))"

text \<open>
  The rest of \<^verbatim>\<open>main\<close> after the checks: what is printed, and the \<^verbatim>\<open>SystemExit\<close> that
  \<^verbatim>\<open>sys.exit\<close> raises.
\<close>

definition report :: "CheckResult list \<Rightarrow> string list \<times> exn" where
  "report checks =
     (case report_loop checks [newline @ ''[VALIDATE] RESULTS''] 0 of
        (out, failed) \<Rightarrow>
          if failed \<noteq> 0 then
            (out @ [newline @ ''[VALIDATE] FAILED ('' @ str_int failed @ '' checks).''],
             SystemExit_code 1)
          else (out @ [newline @ ''[VALIDATE] PASSED.''], SystemExit_code 0))"

text \<open>
  The status the process ends with: the code of a \<^verbatim>\<open>SystemExit\<close>; 1 when \<^verbatim>\<open>SystemExit\<close>
  carries a message (printed to stderr) and for any other uncaught exception.
\<close>

fun exit_status :: "exn \<Rightarrow> int" where
  "exit_status (SystemExit_code n) = n"
| "exit_status e = 1"

text \<open>The truth value of an \<^verbatim>\<open>Optional[str]\<close> and \<^verbatim>\<open>a or b\<close>.\<close>

definition truthy :: "string option \<Rightarrow> bool" where
  "truthy x = (x \<noteq> None \<and> x \<noteq> Some [])"

definition py_or :: "string option \<Rightarrow> string option \<Rightarrow> string option" where
  "py_or a b = (if truthy a then a else b)"

text \<open>\<^verbatim>\<open>os.getenv\<close> on the process environment (after \<^verbatim>\<open>load_dotenv()\<close>).\<close>

definition getenv :: "(string \<rightharpoonup> string) \<Rightarrow> string \<Rightarrow> string option" where
  "getenv environ k = environ k"

text \<open>\<^verbatim>\<open>_fail(msg)\<close>: prints and raises \<^verbatim>\<open>SystemExit(1)\<close>.\<close>

definition fail :: "string \<Rightarrow> string list \<times> exn" where
  "fail msg = ([''[VALIDATE] FAIL: '' @ msg], SystemExit_code 1)"

definition get_database_url :: "(string \<rightharpoonup> string) \<Rightarrow> string option
                                  \<Rightarrow> (string list \<times> exn) + string" where
  "get_database_url environ cli_value =
     (case py_or cli_value (getenv environ ''DATABASE_URL'') of
        None \<Rightarrow> Inl (fail ''DATABASE_URL is not set (and --database-url not provided).'')
      | Some url \<Rightarrow>
          if url = [] then Inl (fail ''DATABASE_URL is not set (and --database-url not provided).'')
          else Inr url)"

text \<open>The parsed command line (\<^verbatim>\<open>args\<close>), with argparse's defaults already filled in.\<close>

record Namespace =
  database_url :: "string option"
  top_n :: "int option"
  max_unknown_ratio :: pyfloat

text \<open>
  \<^verbatim>\<open>main()\<close>. \<open>connect\<close> stands for \<^verbatim>\<open>create_engine(url, future=True).connect()\<close>: the
  connection behind a target, or the exception raised on the way. The result is what was
  printed to stdout and the exception that ends the process.
\<close>

definition main :: "(string \<rightharpoonup> string) \<Rightarrow> Namespace \<Rightarrow> (string \<Rightarrow> exn + conn)
                      \<Rightarrow> string list \<times> exn" where
  "main environ args connect =
     (case get_database_url environ (database_url args) of
        Inl aborted \<Rightarrow> aborted
      | Inr url \<Rightarrow>
          (case connect url of
             Inl e \<Rightarrow> ([], e)
           | Inr c \<Rightarrow>
               (case run_checks c (top_n args) (max_unknown_ratio args) of
                  Inl e \<Rightarrow> ([], e)
                | Inr checks \<Rightarrow> report checks)))"

text \<open>
  Running the file: the module-level statements come first (\<^verbatim>\<open>DATABASE_URL =
  os.getenv("DATABASE_URL")\<close> and the guard \<^verbatim>\<open>if not DATABASE_URL: raise SystemExit(...)\<close>),
  then \<^verbatim>\<open>main()\<close> under \<^verbatim>\<open>if __name__ == "__main__"\<close>.
\<close>

definition script :: "(string \<rightharpoonup> string) \<Rightarrow> Namespace \<Rightarrow> (string \<Rightarrow> exn + conn)
                        \<Rightarrow> string list \<times> exn" where
  "script environ args connect =
     (if \<not> truthy (getenv environ ''DATABASE_URL'') then
        ([], SystemExit_msg
               ''[VALIDATE] FAIL: DATABASE_URL is not set (and --database-url not provided).'')
      else main environ args connect)"

text \<open>
  \<^verbatim>\<open>ap.parse_args()\<close> on a command line that gives, or leaves out, each of
  \<^verbatim>\<open>--database-url\<close>, \<^verbatim>\<open>--top-n\<close> and \<^verbatim>\<open>--max-unknown-ratio\<close>: the defaults are \<^verbatim>\<open>None\<close>,
  \<^verbatim>\<open>None\<close> and \<^verbatim>\<open>0.30\<close>.
\<close>

definition parse_args :: "string option \<Rightarrow> int option \<Rightarrow> pyfloat option \<Rightarrow> Namespace" where
  "parse_args url_opt top_n_opt ratio_opt =
     \<lparr>database_url = url_opt, top_n = top_n_opt,
      max_unknown_ratio = (case ratio_opt of None \<Rightarrow> float_0_30 | Some x \<Rightarrow> x)\<rparr>"

section \<open>A snapshot and the answers of its database\<close>

text \<open>
  Modelled from the spec: the tables of the snapshot. Their declarations (\<^verbatim>\<open>db/schema.sql\<close>)
  are not in the script; the spec's data model lists the tables (one row per player in
  \<^verbatim>\<open>player\<close>, one row per card slot in \<^verbatim>\<open>deck_cards\<close>, counters \<^verbatim>\<open>uses\<close> and \<^verbatim>\<open>wins\<close> in the
  stats tables) and the SQL statements name the columns they read: \<^verbatim>\<open>uses\<close> and \<^verbatim>\<open>wins\<close> in
  the five stats tables, \<^verbatim>\<open>deck_type\<close> in \<^verbatim>\<open>meta_deck_types\<close>, \<^verbatim>\<open>deck_hash\<close> in \<^verbatim>\<open>deck_cards\<close>.
  A table is a sequence of rows; counters are integers, labels and hashes are text, none
  of them NULL. A row of \<^verbatim>\<open>player\<close> is the player's tag.
\<close>

record counters =
  uses :: int
  wins :: int

record meta_deck_type = counters +
  deck_type :: string

record deck_card =
  deck_hash :: string

record snapshot =
  player :: "string list"
  player_decks :: "counters list"
  player_type_cards :: "counters list"
  deck_cards :: "deck_card list"
  meta_deck_types :: "meta_deck_type list"
  meta_type_cards :: "counters list"
  meta_type_deck_ids :: "counters list"

text \<open>\<^verbatim>\<open>COUNT(*)\<close>, \<^verbatim>\<open>SUM(col)\<close> (NULL over no rows) and \<^verbatim>\<open>COALESCE(x, 0)\<close>.\<close>

definition sql_count :: "'a list \<Rightarrow> int option" where
  "sql_count rows = Some (int (length rows))"

definition sql_sum :: "int list \<Rightarrow> int option" where
  "sql_sum xs = (if xs = [] then None else Some (sum_list xs))"

definition coalesce_0 :: "int option \<Rightarrow> int option" where
  "coalesce_0 x = (case x of None \<Rightarrow> Some 0 | Some v \<Rightarrow> Some v)"

text \<open>\<^verbatim>\<open>WHERE wins > uses OR wins < 0 OR uses < 0\<close>.\<close>

definition bad_row :: "'a counters_scheme \<Rightarrow> bool" where
  "bad_row r = (uses r < wins r \<or> wins r < 0 \<or> uses r < 0)"

text \<open>
  \<^verbatim>\<open>deck_type ILIKE 'unknown'\<close>: the pattern has no wildcard, so the match is equality up
  to the case of letters.
\<close>

definition ascii_lower :: "char \<Rightarrow> char" where
  "ascii_lower ch =
     (case map_of (zip ''ABCDEFGHIJKLMNOPQRSTUVWXYZ'' ''abcdefghijklmnopqrstuvwxyz'') ch of
        None \<Rightarrow> ch
      | Some l \<Rightarrow> l)"

definition ilike_unknown :: "string \<Rightarrow> bool" where
  "ilike_unknown s = (map ascii_lower s = ''unknown'')"

text \<open>
  \<^verbatim>\<open>GROUP BY deck_hash\<close> with \<^verbatim>\<open>COUNT(*)\<close>: one row per distinct hash, with the number of
  rows that carry it. SQL leaves the order of the groups to the engine; here it is that
  of the last row of each group.
\<close>

definition group_count :: "string list \<Rightarrow> (string \<times> int) list" where
  "group_count hs = map (\<lambda>h. (h, int (count_list hs h))) (remdups hs)"

definition deck_hash_not_8 :: "deck_card list \<Rightarrow> (string \<times> int) list" where
  "deck_hash_not_8 rows =
     take 20 (filter (\<lambda>g. snd g \<noteq> 8) (group_count (map deck_hash rows)))"

text \<open>
  The stats tables by name, each with the number of its rows that the \<^verbatim>\<open>WHERE\<close> clause of the
  counters statement selects; a statement on any other table name fails.
\<close>

definition bad_row_counts :: "snapshot \<Rightarrow> (string \<times> int) list" where
  "bad_row_counts s =
     [(''player_decks'', int (length (filter bad_row (player_decks s)))),
      (''player_type_cards'', int (length (filter bad_row (player_type_cards s)))),
      (''meta_deck_types'', int (length (filter bad_row (meta_deck_types s)))),
      (''meta_type_cards'', int (length (filter bad_row (meta_type_cards s)))),
      (''meta_type_deck_ids'', int (length (filter bad_row (meta_type_deck_ids s))))]"

definition count_bad :: "snapshot \<Rightarrow> string \<Rightarrow> int option" where
  "count_bad s t = map_of (bad_row_counts s) t"

fun snapshot_scalar :: "snapshot \<Rightarrow> sql_scalar \<Rightarrow> exn + int option" where
  "snapshot_scalar s (SELECT_count_bad t uses_col wins_col) =
     (if uses_col = ''uses'' \<and> wins_col = ''wins'' then
        (case count_bad s t of
           None \<Rightarrow> Inl (DBAPIError ''UndefinedTable'')
         | Some n \<Rightarrow> Inr (Some n))
      else Inl (DBAPIError ''UndefinedColumn''))"
| "snapshot_scalar s SELECT_count_meta_deck_types = Inr (sql_count (meta_deck_types s))"
| "snapshot_scalar s SELECT_sum_uses_meta_deck_types =
     Inr (coalesce_0 (sql_sum (map uses (meta_deck_types s))))"
| "snapshot_scalar s SELECT_sum_uses_unknown =
     Inr (coalesce_0 (sql_sum (map uses (filter (\<lambda>r. ilike_unknown (deck_type r)) (meta_deck_types s)))))"
| "snapshot_scalar s SELECT_sum_uses_player_decks =
     Inr (coalesce_0 (sql_sum (map uses (player_decks s))))"
| "snapshot_scalar s SELECT_count_player = Inr (sql_count (player s))"

fun snapshot_rows :: "snapshot \<Rightarrow> sql_rows \<Rightarrow> exn + (string \<times> int) list" where
  "snapshot_rows s SELECT_deck_hash_not_8 = Inr (deck_hash_not_8 (deck_cards s))"

text \<open>The connection to a database that holds the snapshot and answers every statement.\<close>

definition snapshot_conn :: "snapshot \<Rightarrow> conn" where
  "snapshot_conn s = \<lparr>execute_scalar = snapshot_scalar s, execute_fetchall = snapshot_rows s\<rparr>"

text \<open>The two sums of the ratio checks and the per-table bad-row counts, as the claims name them.\<close>

definition topn_obs_of :: "snapshot \<Rightarrow> int" where
  "topn_obs_of s = sum_list (map uses (player_decks s))"

definition meta_obs_of :: "snapshot \<Rightarrow> int" where
  "meta_obs_of s = sum_list (map uses (meta_deck_types s))"

definition unknown_of :: "snapshot \<Rightarrow> int" where
  "unknown_of s = sum_list (map uses (filter (\<lambda>r. ilike_unknown (deck_type r)) (meta_deck_types s)))"

section \<open>Example snapshots and connections\<close>

text \<open>
  Deck \<open>D1\<close> has 8 card rows and \<open>D2\<close> has 7; \<^verbatim>\<open>player_decks\<close> holds a row with
  \<open>uses = 5\<close>, \<open>wins = 6\<close> and sums to 100 uses; \<^verbatim>\<open>meta_deck_types\<close> sums to 150 uses, 35 of
  them under the label \<^verbatim>\<open>UnKnown\<close>.
\<close>

definition snap_example :: snapshot where
  "snap_example =
     \<lparr>player = [''#P1'', ''#P2''],
      player_decks = [\<lparr>uses = 5, wins = 6\<rparr>, \<lparr>uses = 95, wins = 50\<rparr>],
      player_type_cards = [],
      deck_cards =
        [\<lparr>deck_hash = ''D1''\<rparr>, \<lparr>deck_hash = ''D2''\<rparr>, \<lparr>deck_hash = ''D1''\<rparr>, \<lparr>deck_hash = ''D2''\<rparr>,
         \<lparr>deck_hash = ''D1''\<rparr>, \<lparr>deck_hash = ''D2''\<rparr>, \<lparr>deck_hash = ''D1''\<rparr>, \<lparr>deck_hash = ''D2''\<rparr>,
         \<lparr>deck_hash = ''D1''\<rparr>, \<lparr>deck_hash = ''D2''\<rparr>, \<lparr>deck_hash = ''D1''\<rparr>, \<lparr>deck_hash = ''D2''\<rparr>,
         \<lparr>deck_hash = ''D1''\<rparr>, \<lparr>deck_hash = ''D2''\<rparr>, \<lparr>deck_hash = ''D1''\<rparr>],
      meta_deck_types =
        [\<lparr>uses = 115, wins = 60, deck_type = ''Hog Cycle''\<rparr>,
         \<lparr>uses = 35, wins = 10, deck_type = ''UnKnown''\<rparr>],
      meta_type_cards = [\<lparr>uses = 40, wins = 40\<rparr>],
      meta_type_deck_ids = [\<lparr>uses = 3, wins = - 1\<rparr>, \<lparr>uses = - 2, wins = - 2\<rparr>]\<rparr>"

text \<open>The same with other contents of \<^verbatim>\<open>meta_deck_types\<close>, given as (label, uses) pairs.\<close>

definition with_meta :: "(string \<times> int) list \<Rightarrow> snapshot" where
  "with_meta rows =
     snap_example\<lparr>meta_deck_types := map (\<lambda>p. \<lparr>uses = snd p, wins = 0, deck_type = fst p\<rparr>) rows\<rparr>"

text \<open>A snapshot whose stats rows all satisfy \<open>0 \<le> wins \<le> uses\<close>, and one without player decks.\<close>

definition snap_sane :: snapshot where
  "snap_sane = snap_example\<lparr>player_decks := [\<lparr>uses = 100, wins = 50\<rparr>], meta_type_deck_ids := []\<rparr>"

definition snap_no_player_decks :: snapshot where
  "snap_no_player_decks = snap_example\<lparr>player_decks := []\<rparr>"

text \<open>
  A connection to the example's database that is lost when the player table is counted:
  that statement raises, every other one is answered.
\<close>

definition conn_lost_at_player_count :: conn where
  "conn_lost_at_player_count =
     \<lparr>execute_scalar =
        (\<lambda>sql. if sql = SELECT_count_player
               then Inl (DBAPIError ''server closed the connection unexpectedly'')
               else snapshot_scalar snap_example sql),
      execute_fetchall = snapshot_rows snap_example\<rparr>"

definition connect_lost :: "string \<Rightarrow> exn + conn" where
  "connect_lost url = Inr conn_lost_at_player_count"

definition connect_example :: "string \<Rightarrow> exn + conn" where
  "connect_example url = Inr (snapshot_conn snap_example)"

definition environ_example :: "string \<rightharpoonup> string" where
  "environ_example = [''DATABASE_URL'' \<mapsto> ''postgresql://localhost/snapshot'']"

section \<open>Facts about the Python values\<close>

lemma str_nat_nonempty: "str_nat n \<noteq> []"
  by (subst str_nat.simps) simp

lemma str_int_nonempty: "str_int i \<noteq> []"
  by (simp add: str_int_def str_nat_nonempty)

lemma py_join_nonempty: "xs \<noteq> [] \<Longrightarrow> \<forall>x \<in> set xs. x \<noteq> [] \<Longrightarrow> py_join sep xs \<noteq> []"
  by (induction sep xs rule: py_join.induct) auto

lemma bit_length_bounds: "0 < n \<Longrightarrow> 2 ^ (bit_length n - 1) \<le> n \<and> n < 2 ^ bit_length n"
proof (induction n rule: bit_length.induct)
  case (1 n)
  show ?case
  proof (cases "n div 2 = 0")
    case True
    with "1.prems" have "n = 1" by presburger
    then show ?thesis by (simp add: bit_length.simps)
  next
    case False
    then have pos: "0 < n div 2" by simp
    from "1.IH" "1.prems" pos
    have ih: "2 ^ (bit_length (n div 2) - 1) \<le> n div 2" "n div 2 < 2 ^ bit_length (n div 2)"
      by auto
    have bl: "bit_length n = Suc (bit_length (n div 2))"
      using "1.prems" by (subst bit_length.simps) simp
    have "0 < bit_length (n div 2)"
      using pos by (subst bit_length.simps) simp
    then have "(2::nat) ^ (bit_length n - 1) = 2 * 2 ^ (bit_length (n div 2) - 1)"
      by (cases "bit_length (n div 2)") (simp_all add: bl)
    moreover have "2 * (n div 2) \<le> n" "n < 2 * (n div 2 + 1)" by presburger+
    moreover have "(2::nat) ^ bit_length n = 2 * 2 ^ bit_length (n div 2)" by (simp add: bl)
    ultimately show ?thesis using ih by linarith
  qed
qed

lemma bit_length_le_shift:
  assumes "0 < a" "a < 2 ^ m * b"
  shows "bit_length a \<le> bit_length b + m"
proof -
  from assms have bpos: "0 < b" by (cases b) auto
  from bit_length_bounds[OF assms(1)] have "2 ^ (bit_length a - 1) \<le> a" by simp
  also note assms(2)
  also have "2 ^ m * b < 2 ^ m * 2 ^ bit_length b"
    using bit_length_bounds[OF bpos] by simp
  finally have "(2::nat) ^ (bit_length a - 1) < 2 ^ (m + bit_length b)"
    by (simp add: power_add)
  then have "bit_length a - 1 < m + bit_length b"
    by (simp add: power_strict_increasing_iff)
  then show ?thesis by simp
qed

lemma round_half_even_le: "round_half_even a b \<le> a div b + 1"
  by (simp add: round_half_even_def Let_def)

lemma binade_le: "binade a b \<le> int (bit_length a) - int (bit_length b)"
  by (simp add: binade_def Let_def)

lemma round_to_double_in_range:
  assumes "a < 2 ^ 1023 * b"
  shows "\<not> too_large (round_to_double a b)"
proof (cases "a = 0")
  case True
  then show ?thesis by (simp add: round_to_double_def too_large_def)
next
  case False
  then have apos: "0 < a" by simp
  from assms have bpos: "0 < b" by (cases b) auto
  define k where "k = max (binade a b) (- 1022) - 52"
  define n where "n = round_half_even (a * 2 ^ nat (- k)) (b * 2 ^ nat k)"
  have rd: "round_to_double a b = (n * 2 ^ nat k, 2 ^ nat (- k))"
    using False by (simp add: round_to_double_def Let_def k_def n_def)
  have "bit_length a \<le> bit_length b + 1023"
    by (rule bit_length_le_shift[OF apos assms])
  with binade_le[of a b] have kle: "k \<le> 971" by (simp add: k_def)
  show ?thesis
  proof (cases "k \<le> 0")
    case True
    then have n: "n = round_half_even (a * 2 ^ nat (- k)) b" by (simp add: n_def)
    have "a * 2 ^ nat (- k) < (2 ^ 1023 * 2 ^ nat (- k)) * b"
      using assms by (simp add: ac_simps)
    then have "a * 2 ^ nat (- k) div b < 2 ^ 1023 * 2 ^ nat (- k)"
      using bpos by (simp add: less_mult_imp_div_less)
    with round_half_even_le[of "a * 2 ^ nat (- k)" b]
    have "n \<le> 2 ^ 1023 * 2 ^ nat (- k)" by (simp add: n)
    also have "\<dots> < 2 ^ 1024 * 2 ^ nat (- k)" by simp
    finally show ?thesis using True by (simp add: rd too_large_def)
  next
    case False
    then have kpos: "0 < k" by simp
    then have n: "n = round_half_even a (b * 2 ^ nat k)" by (simp add: n_def)
    have "a div (b * 2 ^ nat k) * 2 ^ nat k \<le> a div b"
    proof -
      have "a div (b * 2 ^ nat k) = a div b div 2 ^ nat k"
        by (simp add: div_mult2_eq)
      then show ?thesis by simp
    qed
    moreover have "a div b < 2 ^ 1023"
      using assms bpos by (simp add: less_mult_imp_div_less)
    moreover have "(2::nat) ^ nat k \<le> 2 ^ 971"
      using kle by (intro power_increasing) auto
    moreover have "n * 2 ^ nat k \<le> a div (b * 2 ^ nat k) * 2 ^ nat k + 2 ^ nat k"
      using round_half_even_le[of a "b * 2 ^ nat k"] unfolding n
      by (metis add_mult_distrib mult_le_mono1 nat_mult_1)
    ultimately have "n * 2 ^ nat k < 2 ^ 1023 + 2 ^ 971" by linarith
    also have "\<dots> \<le> (2::nat) ^ 1024" by simp
    finally show ?thesis using kpos by (simp add: rd too_large_def)
  qed
qed

lemma py_truediv_in_range:
  assumes "b \<noteq> 0" "\<bar>a\<bar> < 2 ^ 1023 * \<bar>b\<bar>"
  shows "py_truediv a b =
           Inr (Finite ((a < 0) \<noteq> (b < 0)) (fst (round_to_double (nat \<bar>a\<bar>) (nat \<bar>b\<bar>)))
                  (snd (round_to_double (nat \<bar>a\<bar>) (nat \<bar>b\<bar>))))"
proof -
  have "int (nat \<bar>a\<bar>) < int (2 ^ 1023 * nat \<bar>b\<bar>)"
    using assms(2) by simp
  then have "nat \<bar>a\<bar> < 2 ^ 1023 * nat \<bar>b\<bar>"
    by (simp only: of_nat_less_iff)
  then have "\<not> too_large (round_to_double (nat \<bar>a\<bar>) (nat \<bar>b\<bar>))"
    by (rule round_to_double_in_range)
  with assms(1) show ?thesis by (simp add: py_truediv_def Let_def)
qed

section \<open>The checks on the connection of a snapshot\<close>

lemma run_scalar_snapshot [simp]: "run_scalar (snapshot_conn s) q = snapshot_scalar s q"
  by (simp add: run_scalar_def snapshot_conn_def)

lemma run_rows_snapshot [simp]: "run_rows (snapshot_conn s) q = snapshot_rows s q"
  by (simp add: run_rows_def snapshot_conn_def)

lemma int_or_0_coalesce_sum [simp]: "int_or_0 (coalesce_0 (sql_sum xs)) = sum_list xs"
  by (cases xs) (simp_all add: int_or_0_def coalesce_0_def sql_sum_def)

lemma int_or_0_count [simp]: "int_or_0 (sql_count rows) = int (length rows)"
  by (simp add: int_or_0_def sql_count_def)

lemma group_count_set:
  "set (group_count hs) = (\<lambda>h. (h, int (count_list hs h))) ` set hs"
  by (simp add: group_count_def)

lemma group_count_distinct: "distinct (map fst (group_count hs))"
  by (simp add: group_count_def comp_def)

lemma deck_hash_not_8_set:
  "(h, n) \<in> set (deck_hash_not_8 rows) \<Longrightarrow>
     h \<in> set (map deck_hash rows) \<and> n = int (count_list (map deck_hash rows) h) \<and> n \<noteq> 8"
proof -
  assume "(h, n) \<in> set (deck_hash_not_8 rows)"
  then have "(h, n) \<in> set (filter (\<lambda>g. snd g \<noteq> 8) (group_count (map deck_hash rows)))"
    unfolding deck_hash_not_8_def by (rule in_set_takeD)
  then show ?thesis by (auto simp: group_count_set)
qed

lemma deck_hash_not_8_length: "length (deck_hash_not_8 rows) \<le> 20"
  by (simp add: deck_hash_not_8_def)

lemma deck_hash_not_8_distinct: "distinct (map fst (deck_hash_not_8 rows))"
  unfolding deck_hash_not_8_def
  by (simp add: take_map[symmetric] distinct_map_filter group_count_distinct)

lemma deck_hash_not_8_empty:
  "deck_hash_not_8 rows = [] \<longleftrightarrow>
     (\<forall>h \<in> set (map deck_hash rows). count_list (map deck_hash rows) h = 8)"
proof -
  have "deck_hash_not_8 rows = [] \<longleftrightarrow>
          filter (\<lambda>g. snd g \<noteq> 8) (group_count (map deck_hash rows)) = []"
    by (simp add: deck_hash_not_8_def)
  also have "\<dots> \<longleftrightarrow> (\<forall>g \<in> set (group_count (map deck_hash rows)). snd g = 8)"
    by (simp add: filter_empty_conv)
  also have "\<dots> \<longleftrightarrow> (\<forall>h \<in> set (map deck_hash rows). count_list (map deck_hash rows) h = 8)"
    by (simp add: group_count_set)
  finally show ?thesis .
qed

lemma deck_check_result:
  "check_deck_cards_integrity (snapshot_conn s) =
     Inr (if deck_hash_not_8 (deck_cards s) \<noteq> [] then
            \<lparr>name = ''deck_cards: each deck_hash has exactly 8 cards'', ok = False,
             details = ''Found deck_hash with != 8 cards (showing up to 20):'' @ newline
                       @ py_join newline (map sample_line (deck_hash_not_8 (deck_cards s)))\<rparr>
          else \<lparr>name = ''deck_cards: each deck_hash has exactly 8 cards'', ok = True, details = []\<rparr>)"
  by (simp add: check_deck_cards_integrity_def)

lemma n_and_positive_Some [simp]: "n_and_positive (Some n) \<longleftrightarrow> 0 < n"
  by (auto simp: n_and_positive_def)

lemma str_scalar_Some [simp]: "str_scalar (Some n) = str_int n"
  by (simp add: str_scalar_def)

lemma wins_uses_loop_snapshot:
  "wins_uses_loop (snapshot_conn s) tables [] =
     Inr (map (\<lambda>p. fst p @ '' has '' @ str_int (snd p) @ '' bad rows'')
            (filter (\<lambda>p. 0 < snd p) (bad_row_counts s)))"
  by (simp add: tables_def count_bad_def bad_row_counts_def)

lemma wins_uses_check_result:
  "check_wins_uses_sanity (snapshot_conn s) =
     Inr (let bad = map (\<lambda>p. fst p @ '' has '' @ str_int (snd p) @ '' bad rows'')
                       (filter (\<lambda>p. 0 < snd p) (bad_row_counts s))
          in if bad \<noteq> [] then
               \<lparr>name = ''wins/uses sanity (wins<=uses and non-negative)'', ok = False,
                details = py_join ''; '' bad\<rparr>
             else \<lparr>name = ''wins/uses sanity (wins<=uses and non-negative)'', ok = True,
                   details = []\<rparr>)"
  by (simp add: check_wins_uses_sanity_def wins_uses_loop_snapshot Let_def)

lemma no_bad_rows_iff:
  "length (filter bad_row rows) = 0 \<longleftrightarrow> (\<forall>r \<in> set rows. 0 \<le> wins r \<and> wins r \<le> uses r)"
  by (auto simp: filter_empty_conv bad_row_def)

lemma offending_tables_empty_iff:
  "filter (\<lambda>p. 0 < snd p) (bad_row_counts s) = [] \<longleftrightarrow>
     (\<forall>r \<in> set (player_decks s). 0 \<le> wins r \<and> wins r \<le> uses r)
   \<and> (\<forall>r \<in> set (player_type_cards s). 0 \<le> wins r \<and> wins r \<le> uses r)
   \<and> (\<forall>r \<in> set (meta_deck_types s). 0 \<le> wins r \<and> wins r \<le> uses r)
   \<and> (\<forall>r \<in> set (meta_type_cards s). 0 \<le> wins r \<and> wins r \<le> uses r)
   \<and> (\<forall>r \<in> set (meta_type_deck_ids s). 0 \<le> wins r \<and> wins r \<le> uses r)"
  unfolding no_bad_rows_iff[symmetric]
  by (simp add: bad_row_counts_def filter_empty_conv)

lemma meta_not_empty_result:
  "check_meta_not_empty (snapshot_conn s) =
     Inr (if meta_deck_types s = [] then
            \<lparr>name = ''meta sanity: meta_deck_types not empty'', ok = False,
             details = ''meta_deck_types is empty''\<rparr>
          else \<lparr>name = ''meta sanity: meta_deck_types not empty'', ok = True, details = []\<rparr>)"
  by (simp add: check_meta_not_empty_def sql_count_def)

lemma expected_topn_returns:
  "\<exists>res. check_expected_topn_player_count (snapshot_conn s) expected = Inr res"
  by (cases expected) (simp_all add: check_expected_topn_player_count_def Let_def)

lemma unknown_check_zero_total:
  "meta_obs_of s = 0 \<Longrightarrow>
     check_unknown_deck_type_explosion (snapshot_conn s) lim =
       Inr \<lparr>name = ''deck_type sanity: unknown ratio'', ok = False,
            details = ''meta_deck_types total uses is 0''\<rparr>"
  by (simp add: check_unknown_deck_type_explosion_def meta_obs_of_def Let_def)

lemma unknown_check_ratio:
  "meta_obs_of s \<noteq> 0 \<Longrightarrow> py_truediv (unknown_of s) (meta_obs_of s) = Inr ratio \<Longrightarrow>
     check_unknown_deck_type_explosion (snapshot_conn s) lim =
       Inr (if float_gt ratio lim then
              \<lparr>name = ''deck_type sanity: unknown ratio'', ok = False,
               details = ''Unknown uses ratio too high: '' @ str_int (unknown_of s) @ ''/''
                  @ str_int (meta_obs_of s) @ '' = '' @ format_2pct ratio
                  @ '' (max '' @ format_2pct lim @ '')''\<rparr>
            else
              \<lparr>name = ''deck_type sanity: unknown ratio'', ok = True,
               details = ''Unknown ratio: '' @ str_int (unknown_of s) @ ''/''
                  @ str_int (meta_obs_of s) @ '' = '' @ format_2pct ratio\<rparr>)"
  by (simp add: check_unknown_deck_type_explosion_def meta_obs_of_def unknown_of_def Let_def)

lemma unknown_check_returns:
  assumes "meta_obs_of s = 0 \<or> \<bar>unknown_of s\<bar> < 2 ^ 1023 * \<bar>meta_obs_of s\<bar>"
  shows "\<exists>res. check_unknown_deck_type_explosion (snapshot_conn s) lim = Inr res"
proof (cases "meta_obs_of s = 0")
  case True
  then show ?thesis by (simp add: unknown_check_zero_total)
next
  case False
  with assms have "\<bar>unknown_of s\<bar> < 2 ^ 1023 * \<bar>meta_obs_of s\<bar>" by simp
  from py_truediv_in_range[OF False this] obtain ratio
    where "py_truediv (unknown_of s) (meta_obs_of s) = Inr ratio" by blast
  from unknown_check_ratio[OF False this] show ?thesis by simp
qed

lemma totals_check_returns:
  "\<exists>res. check_totals_sanity_topn_vs_meta (snapshot_conn s) = Inr res"
proof (cases "topn_obs_of s = 0 \<or> meta_obs_of s < topn_obs_of s \<or> 2 * topn_obs_of s < meta_obs_of s")
  case True
  then show ?thesis
    by (auto simp: check_totals_sanity_topn_vs_meta_def topn_obs_of_def meta_obs_of_def Let_def)
next
  case False
  then have "topn_obs_of s \<noteq> 0" "\<bar>meta_obs_of s\<bar> < 2 ^ 1023 * \<bar>topn_obs_of s\<bar>" by auto
  from py_truediv_in_range[OF this] obtain ratio
    where "py_truediv (meta_obs_of s) (topn_obs_of s) = Inr ratio" by blast
  with False show ?thesis
    by (auto simp: check_totals_sanity_topn_vs_meta_def topn_obs_of_def meta_obs_of_def Let_def)
qed

section \<open>The report\<close>

lemma report_loop_failed:
  "snd (report_loop checks out failed) = failed + int (length (filter (\<lambda>c. \<not> ok c) checks))"
  by (induction checks arbitrary: out failed) (simp_all add: Let_def)

lemma report_exit:
  "snd (report checks) = SystemExit_code (if length (filter (\<lambda>c. \<not> ok c) checks) = 0 then 0 else 1)"
  using report_loop_failed[of checks "[newline @ ''[VALIDATE] RESULTS'']" 0]
  by (auto simp: report_def split: prod.splits)

lemma report_last_line:
  "last (fst (report checks)) =
     (if length (filter (\<lambda>c. \<not> ok c) checks) = 0 then newline @ ''[VALIDATE] PASSED.''
      else newline @ ''[VALIDATE] FAILED ('' @ str_int (int (length (filter (\<lambda>c. \<not> ok c) checks)))
             @ '' checks).'')"
  using report_loop_failed[of checks "[newline @ ''[VALIDATE] RESULTS'']" 0]
  by (auto simp: report_def split: prod.splits)

section \<open>The checks on any connection\<close>

lemma wins_uses_loop_reasons_nonempty:
  "wins_uses_loop c ts bad = Inr bad' \<Longrightarrow> \<forall>b \<in> set bad. b \<noteq> [] \<Longrightarrow> \<forall>b \<in> set bad'. b \<noteq> []"
proof (induction c ts bad rule: wins_uses_loop.induct)
  case (1 c bad)
  then show ?case by simp
next
  case (2 c t uses_col wins_col ts bad)
  from "2.prems"(1) obtain n where n: "run_scalar c (SELECT_count_bad t uses_col wins_col) = Inr n"
    by (auto split: sum.splits)
  let ?bad = "if n_and_positive n then bad @ [t @ '' has '' @ str_scalar n @ '' bad rows''] else bad"
  from "2.prems"(1) n have "wins_uses_loop c ts ?bad = Inr bad'" by simp
  moreover have "\<forall>b \<in> set ?bad. b \<noteq> []" using "2.prems"(2) by simp
  ultimately show ?case using "2.IH"[OF n] by blast
qed

lemma deck_check_details:
  "check_deck_cards_integrity c = Inr res \<Longrightarrow> \<not> ok res \<Longrightarrow> details res \<noteq> []"
  by (auto simp: check_deck_cards_integrity_def split: sum.splits if_splits)

lemma wins_uses_check_details:
  assumes "check_wins_uses_sanity c = Inr res" "\<not> ok res"
  shows "details res \<noteq> []"
proof -
  from assms obtain bad where bad: "wins_uses_loop c tables [] = Inr bad" "bad \<noteq> []"
    "details res = py_join ''; '' bad"
    by (auto simp: check_wins_uses_sanity_def split: sum.splits if_splits)
  from wins_uses_loop_reasons_nonempty[OF bad(1)] have "\<forall>b \<in> set bad. b \<noteq> []" by simp
  with bad(2,3) show ?thesis by (simp add: py_join_nonempty)
qed

lemma meta_not_empty_details:
  "check_meta_not_empty c = Inr res \<Longrightarrow> \<not> ok res \<Longrightarrow> details res \<noteq> []"
  by (auto simp: check_meta_not_empty_def split: sum.splits if_splits)

lemma expected_topn_details:
  "check_expected_topn_player_count c expected = Inr res \<Longrightarrow> \<not> ok res \<Longrightarrow> details res \<noteq> []"
  by (auto simp: check_expected_topn_player_count_def Let_def split: sum.splits if_splits option.splits)

lemma totals_details:
  "check_totals_sanity_topn_vs_meta c = Inr res \<Longrightarrow> \<not> ok res \<Longrightarrow> details res \<noteq> []"
  by (auto simp: check_totals_sanity_topn_vs_meta_def Let_def split: sum.splits if_splits)

lemma unknown_details:
  "check_unknown_deck_type_explosion c lim = Inr res \<Longrightarrow> \<not> ok res \<Longrightarrow> details res \<noteq> []"
  by (auto simp: check_unknown_deck_type_explosion_def Let_def split: sum.splits if_splits)

lemma deck_check_name:
  "check_deck_cards_integrity c = Inr res \<Longrightarrow>
     name res = ''deck_cards: each deck_hash has exactly 8 cards''"
  by (auto simp: check_deck_cards_integrity_def split: sum.splits if_splits)

lemma wins_uses_check_name:
  "check_wins_uses_sanity c = Inr res \<Longrightarrow>
     name res = ''wins/uses sanity (wins<=uses and non-negative)''"
  by (auto simp: check_wins_uses_sanity_def split: sum.splits if_splits)

lemma meta_not_empty_name:
  "check_meta_not_empty c = Inr res \<Longrightarrow> name res = ''meta sanity: meta_deck_types not empty''"
  by (auto simp: check_meta_not_empty_def split: sum.splits if_splits)

lemma expected_topn_name:
  "check_expected_topn_player_count c expected = Inr res \<Longrightarrow>
     name res = (if expected = None then ''player count matches --top-n (skipped)''
                 else ''player count matches --top-n'')"
  by (auto simp: check_expected_topn_player_count_def Let_def split: sum.splits if_splits option.splits)

lemma totals_name:
  "check_totals_sanity_topn_vs_meta c = Inr res \<Longrightarrow>
     name res = ''totals sanity: meta_obs between topn_obs and 2*topn_obs''"
  by (auto simp: check_totals_sanity_topn_vs_meta_def Let_def split: sum.splits if_splits)

lemma unknown_name:
  "check_unknown_deck_type_explosion c lim = Inr res \<Longrightarrow>
     name res = ''deck_type sanity: unknown ratio''"
  by (auto simp: check_unknown_deck_type_explosion_def Let_def split: sum.splits if_splits)

lemma run_checks_Inr_iff:
  "run_checks c expected lim = Inr rs \<longleftrightarrow>
     (\<exists>r1 r2 r3 r4 r5 r6. rs = [r1, r2, r3, r4, r5, r6]
        \<and> check_deck_cards_integrity c = Inr r1
        \<and> check_wins_uses_sanity c = Inr r2
        \<and> check_meta_not_empty c = Inr r3
        \<and> check_expected_topn_player_count c expected = Inr r4
        \<and> check_totals_sanity_topn_vs_meta c = Inr r5
        \<and> check_unknown_deck_type_explosion c lim = Inr r6)"
  by (auto simp: run_checks_def split: sum.splits)

lemma run_checks_names:
  assumes "run_checks c expected lim = Inr rs"
  shows "map name rs =
           [''deck_cards: each deck_hash has exactly 8 cards'',
            ''wins/uses sanity (wins<=uses and non-negative)'',
            ''meta sanity: meta_deck_types not empty'',
            (if expected = None then ''player count matches --top-n (skipped)''
             else ''player count matches --top-n''),
            ''totals sanity: meta_obs between topn_obs and 2*topn_obs'',
            ''deck_type sanity: unknown ratio'']"
proof -
  from assms obtain r1 r2 r3 r4 r5 r6 where rs: "rs = [r1, r2, r3, r4, r5, r6]"
    and r: "check_deck_cards_integrity c = Inr r1" "check_wins_uses_sanity c = Inr r2"
      "check_meta_not_empty c = Inr r3" "check_expected_topn_player_count c expected = Inr r4"
      "check_totals_sanity_topn_vs_meta c = Inr r5"
      "check_unknown_deck_type_explosion c lim = Inr r6"
    unfolding run_checks_Inr_iff by blast
  show ?thesis
    unfolding rs
    using deck_check_name[OF r(1)] wins_uses_check_name[OF r(2)] meta_not_empty_name[OF r(3)]
      expected_topn_name[OF r(4)] totals_name[OF r(5)] unknown_name[OF r(6)]
    by simp
qed

lemma run_checks_Inl_iff:
  "(\<exists>e. run_checks c expected lim = Inl e) \<longleftrightarrow>
     (\<exists>e. check_deck_cards_integrity c = Inl e \<or> check_wins_uses_sanity c = Inl e
        \<or> check_meta_not_empty c = Inl e \<or> check_expected_topn_player_count c expected = Inl e
        \<or> check_totals_sanity_topn_vs_meta c = Inl e
        \<or> check_unknown_deck_type_explosion c lim = Inl e)"
  by (auto simp: run_checks_def split: sum.splits)

lemma run_checks_Inl_is_a_check_fault:
  "run_checks c expected lim = Inl e \<Longrightarrow>
     check_deck_cards_integrity c = Inl e \<or> check_wins_uses_sanity c = Inl e
   \<or> check_meta_not_empty c = Inl e \<or> check_expected_topn_player_count c expected = Inl e
   \<or> check_totals_sanity_topn_vs_meta c = Inl e
   \<or> check_unknown_deck_type_explosion c lim = Inl e"
  by (auto simp: run_checks_def split: sum.splits)

section \<open>Evaluating the examples\<close>

lemmas python_eval = str_int_def str_nat.simps digit_char_def newline_def round_to_double_def
  binade_def bit_length.simps round_half_even_def Let_def py_truediv_def too_large_def
  float_0_30_def signed_num_def format_2pct_def two_digits_def int_or_0_def sample_line_def
  tables_def

lemmas snapshot_eval = sql_count_def sql_sum_def coalesce_0_def bad_row_def ilike_unknown_def
  ascii_lower_def group_count_def deck_hash_not_8_def count_bad_def bad_row_counts_def
  topn_obs_of_def meta_obs_of_def unknown_of_def snap_example_def with_meta_def snap_sane_def
  snap_no_player_decks_def

lemmas check_defs = check_deck_cards_integrity_def check_wins_uses_sanity_def
  check_meta_not_empty_def check_expected_topn_player_count_def
  check_totals_sanity_topn_vs_meta_def check_unknown_deck_type_explosion_def

lemmas script_eval = script_def main_def get_database_url_def py_or_def truthy_def getenv_def
  fail_def parse_args_def report_def indent_details_def environ_example_def
  connect_example_def connect_lost_def

section \<open>The six checks on the example snapshot\<close>

lemma example_deck_check:
  "check_deck_cards_integrity (snapshot_conn snap_example)
     = Inr \<lparr>name = ''deck_cards: each deck_hash has exactly 8 cards'', ok = False,
            details = ''Found deck_hash with != 8 cards (showing up to 20):'' @ newline
                      @ ''  D2 -> 7''\<rparr>"
  by (simp add: check_deck_cards_integrity_def python_eval snapshot_eval)

lemma example_wins_uses_check:
  "check_wins_uses_sanity (snapshot_conn snap_example)
     = Inr \<lparr>name = ''wins/uses sanity (wins<=uses and non-negative)'', ok = False,
            details = ''player_decks has 1 bad rows; meta_type_deck_ids has 2 bad rows''\<rparr>"
  by (simp add: check_wins_uses_sanity_def python_eval snapshot_eval)

lemma example_meta_not_empty:
  "check_meta_not_empty (snapshot_conn snap_example)
     = Inr \<lparr>name = ''meta sanity: meta_deck_types not empty'', ok = True, details = []\<rparr>"
  by (simp add: check_meta_not_empty_def python_eval snapshot_eval)

lemma example_expected_topn:
  "check_expected_topn_player_count (snapshot_conn snap_example) None
     = Inr \<lparr>name = ''player count matches --top-n (skipped)'', ok = True, details = []\<rparr>"
  "check_expected_topn_player_count (snapshot_conn snap_example) (Some 2)
     = Inr \<lparr>name = ''player count matches --top-n'', ok = True, details = ''player=2''\<rparr>"
  "check_expected_topn_player_count (snapshot_conn snap_example) (Some 3)
     = Inr \<lparr>name = ''player count matches --top-n'', ok = False,
            details = ''player table count = 2, expected 3''\<rparr>"
  by (simp_all add: check_expected_topn_player_count_def python_eval snapshot_eval)

lemma example_totals_check:
  "check_totals_sanity_topn_vs_meta (snapshot_conn snap_example)
     = Inr \<lparr>name = ''totals sanity: meta_obs between topn_obs and 2*topn_obs'', ok = True,
            details = ''topn_obs=100, meta_obs=150, ratio=1.50''\<rparr>"
  by (simp add: check_totals_sanity_topn_vs_meta_def python_eval snapshot_eval)

lemma example_unknown_check:
  "check_unknown_deck_type_explosion (snapshot_conn snap_example) float_0_30
     = Inr \<lparr>name = ''deck_type sanity: unknown ratio'', ok = True,
            details = ''Unknown ratio: 35/150 = 23.33%''\<rparr>"
  by (simp add: check_unknown_deck_type_explosion_def python_eval snapshot_eval)

lemmas example_checks = example_deck_check example_wins_uses_check example_meta_not_empty
  example_expected_topn example_totals_check example_unknown_check

section \<open>The claims\<close>

subsection \<open>C1: one Check Result per check, in the fixed order\<close>

text \<open>
  C1. For every snapshot the runner returns exactly six Check Results, those of the deck
  cardinality, counters sanity, non-empty catalog, expected population size, cross-table
  ratio and unresolved-label ratio checks, in this order, whatever the expected population
  size and the ceiling and however many of the checks fail: nothing in the statement below
  depends on an \<open>ok\<close> field. The last check divides two Python ints into a float, which
  raises \<^verbatim>\<open>OverflowError\<close> for a quotient too large for a float; the hypothesis keeps the
  quotient below \<open>2^1023\<close> in magnitude (or the total at zero, when nothing is divided).
\<close>

theorem runner_returns_one_result_per_check:
  assumes "meta_obs_of s = 0 \<or> \<bar>unknown_of s\<bar> < 2 ^ 1023 * \<bar>meta_obs_of s\<bar>"
  shows "\<exists>r1 r2 r3 r4 r5 r6.
           run_checks (snapshot_conn s) expected lim = Inr [r1, r2, r3, r4, r5, r6]
         \<and> check_deck_cards_integrity (snapshot_conn s) = Inr r1
         \<and> check_wins_uses_sanity (snapshot_conn s) = Inr r2
         \<and> check_meta_not_empty (snapshot_conn s) = Inr r3
         \<and> check_expected_topn_player_count (snapshot_conn s) expected = Inr r4
         \<and> check_totals_sanity_topn_vs_meta (snapshot_conn s) = Inr r5
         \<and> check_unknown_deck_type_explosion (snapshot_conn s) lim = Inr r6"
proof -
  obtain r1 where r1: "check_deck_cards_integrity (snapshot_conn s) = Inr r1"
    by (simp add: deck_check_result)
  obtain r2 where r2: "check_wins_uses_sanity (snapshot_conn s) = Inr r2"
    by (simp add: wins_uses_check_result)
  obtain r3 where r3: "check_meta_not_empty (snapshot_conn s) = Inr r3"
    by (simp add: meta_not_empty_result)
  obtain r4 where r4: "check_expected_topn_player_count (snapshot_conn s) expected = Inr r4"
    using expected_topn_returns by blast
  obtain r5 where r5: "check_totals_sanity_topn_vs_meta (snapshot_conn s) = Inr r5"
    using totals_check_returns by blast
  obtain r6 where r6: "check_unknown_deck_type_explosion (snapshot_conn s) lim = Inr r6"
    using unknown_check_returns[OF assms] by blast
  from r1 r2 r3 r4 r5 r6 show ?thesis by (simp add: run_checks_def)
qed

text \<open>On the example snapshot three of the six checks fail, and all six results are there.\<close>

theorem runner_returns_one_result_per_check_witness:
  "(meta_obs_of snap_example = 0
      \<or> \<bar>unknown_of snap_example\<bar> < 2 ^ 1023 * \<bar>meta_obs_of snap_example\<bar>)
   \<and> map_sum id (map ok) (run_checks (snapshot_conn snap_example) (Some 3) float_0_30)
       = Inr [False, False, True, False, True, True]"
proof -
  have h: "meta_obs_of snap_example = 0
      \<or> \<bar>unknown_of snap_example\<bar> < 2 ^ 1023 * \<bar>meta_obs_of snap_example\<bar>"
    by (simp add: snapshot_eval)
  from runner_returns_one_result_per_check[OF h, of "Some 3" float_0_30]
  obtain r1 r2 r3 r4 r5 r6 where
    rs: "run_checks (snapshot_conn snap_example) (Some 3) float_0_30 = Inr [r1, r2, r3, r4, r5, r6]"
    and r1: "check_deck_cards_integrity (snapshot_conn snap_example) = Inr r1"
    and r2: "check_wins_uses_sanity (snapshot_conn snap_example) = Inr r2"
    and r3: "check_meta_not_empty (snapshot_conn snap_example) = Inr r3"
    and r4: "check_expected_topn_player_count (snapshot_conn snap_example) (Some 3) = Inr r4"
    and r5: "check_totals_sanity_topn_vs_meta (snapshot_conn snap_example) = Inr r5"
    and r6: "check_unknown_deck_type_explosion (snapshot_conn snap_example) float_0_30 = Inr r6"
    by blast
  have "\<not> ok r1" using r1 by (auto simp: example_checks)
  moreover have "\<not> ok r2" using r2 by (auto simp: example_checks)
  moreover have "ok r3" using r3 by (auto simp: example_checks)
  moreover have "\<not> ok r4" using r4 by (auto simp: example_checks)
  moreover have "ok r5" using r5 by (auto simp: example_checks)
  moreover have "ok r6" using r6 by (auto simp: example_checks)
  ultimately show ?thesis using h rs by simp
qed

subsection \<open>C2: a fault inside a check\<close>

text \<open>
  C2 as stated (the fault is caught per check and turned into a failing Check Result, the
  other checks are still evaluated and reported) does not hold: no check call stands in a
  \<^verbatim>\<open>try\<close>. On the connection that is lost when the player table is counted, the fourth
  check raises; the runner returns no result at all, not those of the three checks before
  it and not that of the fifth, which on its own evaluates without a fault; \<^verbatim>\<open>main\<close> prints
  nothing and ends on the exception.
\<close>

theorem fault_is_not_caught_counterexample:
  "run_checks conn_lost_at_player_count (Some 2) float_0_30
     = Inl (DBAPIError ''server closed the connection unexpectedly'')
   \<and> check_totals_sanity_topn_vs_meta conn_lost_at_player_count
     = Inr \<lparr>name = ''totals sanity: meta_obs between topn_obs and 2*topn_obs'', ok = True,
            details = ''topn_obs=100, meta_obs=150, ratio=1.50''\<rparr>
   \<and> main environ_example (parse_args None (Some 2) None) connect_lost
     = ([], DBAPIError ''server closed the connection unexpectedly'')"
  by (simp add: run_checks_def check_defs python_eval snapshot_eval script_eval
        run_scalar_def run_rows_def conn_lost_at_player_count_def)

text \<open>
  C2, amended. If a fault occurs while evaluating one check (the check raises), the fault
  is not caught: the runner raises the exception of a check and returns no Check Results,
  and \<^verbatim>\<open>main\<close>, once it holds the connection, prints no report and ends on that exception.
\<close>

theorem fault_in_a_check_aborts_the_run:
  assumes "check_deck_cards_integrity c = Inl e \<or> check_wins_uses_sanity c = Inl e
         \<or> check_meta_not_empty c = Inl e
         \<or> check_expected_topn_player_count c (top_n args) = Inl e
         \<or> check_totals_sanity_topn_vs_meta c = Inl e
         \<or> check_unknown_deck_type_explosion c (max_unknown_ratio args) = Inl e"
    and "get_database_url environ (database_url args) = Inr url"
    and "connect url = Inr c"
  shows "\<exists>e'. run_checks c (top_n args) (max_unknown_ratio args) = Inl e'
            \<and> main environ args connect = ([], e')
            \<and> (check_deck_cards_integrity c = Inl e' \<or> check_wins_uses_sanity c = Inl e'
               \<or> check_meta_not_empty c = Inl e'
               \<or> check_expected_topn_player_count c (top_n args) = Inl e'
               \<or> check_totals_sanity_topn_vs_meta c = Inl e'
               \<or> check_unknown_deck_type_explosion c (max_unknown_ratio args) = Inl e')"
proof -
  from assms(1) have "\<exists>e'. run_checks c (top_n args) (max_unknown_ratio args) = Inl e'"
    unfolding run_checks_Inl_iff by blast
  then obtain e' where e': "run_checks c (top_n args) (max_unknown_ratio args) = Inl e'" ..
  with assms(2,3) have "main environ args connect = ([], e')"
    by (simp add: main_def)
  with e' run_checks_Inl_is_a_check_fault[OF e'] show ?thesis by blast
qed

theorem fault_in_a_check_aborts_the_run_witness:
  "check_expected_topn_player_count conn_lost_at_player_count
       (top_n (parse_args None (Some 2) None))
     = Inl (DBAPIError ''server closed the connection unexpectedly'')
   \<and> get_database_url environ_example (database_url (parse_args None (Some 2) None))
     = Inr ''postgresql://localhost/snapshot''
   \<and> connect_lost ''postgresql://localhost/snapshot'' = Inr conn_lost_at_player_count
   \<and> run_checks conn_lost_at_player_count (top_n (parse_args None (Some 2) None))
         (max_unknown_ratio (parse_args None (Some 2) None))
       = Inl (DBAPIError ''server closed the connection unexpectedly'')
   \<and> main environ_example (parse_args None (Some 2) None) connect_lost
       = ([], DBAPIError ''server closed the connection unexpectedly'')"
proof -
  have h1: "check_expected_topn_player_count conn_lost_at_player_count
              (top_n (parse_args None (Some 2) None))
            = Inl (DBAPIError ''server closed the connection unexpectedly'')"
    by (simp add: check_expected_topn_player_count_def parse_args_def run_scalar_def
          conn_lost_at_player_count_def)
  have h2: "get_database_url environ_example (database_url (parse_args None (Some 2) None))
            = Inr ''postgresql://localhost/snapshot''"
    by (simp add: script_eval)
  have h3: "connect_lost ''postgresql://localhost/snapshot'' = Inr conn_lost_at_player_count"
    by (simp add: connect_lost_def)
  have "\<exists>e'. run_checks conn_lost_at_player_count (top_n (parse_args None (Some 2) None))
                (max_unknown_ratio (parse_args None (Some 2) None)) = Inl e'
            \<and> main environ_example (parse_args None (Some 2) None) connect_lost = ([], e')
            \<and> (check_deck_cards_integrity conn_lost_at_player_count = Inl e'
               \<or> check_wins_uses_sanity conn_lost_at_player_count = Inl e'
               \<or> check_meta_not_empty conn_lost_at_player_count = Inl e'
               \<or> check_expected_topn_player_count conn_lost_at_player_count
                    (top_n (parse_args None (Some 2) None)) = Inl e'
               \<or> check_totals_sanity_topn_vs_meta conn_lost_at_player_count = Inl e'
               \<or> check_unknown_deck_type_explosion conn_lost_at_player_count
                    (max_unknown_ratio (parse_args None (Some 2) None)) = Inl e')"
    by (rule fault_in_a_check_aborts_the_run
          [where connect = connect_lost and url = "''postgresql://localhost/snapshot''"
             and c = conn_lost_at_player_count and environ = environ_example
             and args = "parse_args None (Some 2) None"
             and e = "DBAPIError ''server closed the connection unexpectedly''"])
       (simp_all add: h1 h2 h3)
  then obtain e' where
    run: "run_checks conn_lost_at_player_count (top_n (parse_args None (Some 2) None))
            (max_unknown_ratio (parse_args None (Some 2) None)) = Inl e'"
    and m: "main environ_example (parse_args None (Some 2) None) connect_lost = ([], e')"
    by blast
  have "run_checks conn_lost_at_player_count (top_n (parse_args None (Some 2) None))
            (max_unknown_ratio (parse_args None (Some 2) None))
          = Inl (DBAPIError ''server closed the connection unexpectedly'')"
    by (simp add: run_checks_def check_defs python_eval snapshot_eval parse_args_def
          run_scalar_def run_rows_def conn_lost_at_player_count_def)
  with run have "e' = DBAPIError ''server closed the connection unexpectedly''" by simp
  with run m h1 h2 h3 show ?thesis by simp
qed

subsection \<open>C3: the cross-table bounded-ratio check\<close>

text \<open>
  C3. With \<open>topn_obs\<close> the sum of \<^verbatim>\<open>uses\<close> over \<^verbatim>\<open>player_decks\<close> and \<open>meta_obs\<close> the sum over
  \<^verbatim>\<open>meta_deck_types\<close> (an empty table sums to 0), the check returns a result that fails
  exactly when \<open>topn_obs = 0\<close>, \<open>meta_obs < topn_obs\<close> or \<open>meta_obs > 2 * topn_obs\<close>; when it
  passes, the float quotient \<open>meta_obs / topn_obs\<close> exists and the details end with it,
  printed with two decimals.
\<close>

theorem totals_check_bounded_ratio:
  "\<exists>res. check_totals_sanity_topn_vs_meta (snapshot_conn s) = Inr res
     \<and> (\<not> ok res \<longleftrightarrow> topn_obs_of s = 0 \<or> meta_obs_of s < topn_obs_of s
                          \<or> 2 * topn_obs_of s < meta_obs_of s)
     \<and> (ok res \<longrightarrow> (\<exists>ratio. py_truediv (meta_obs_of s) (topn_obs_of s) = Inr ratio
            \<and> details res = ''topn_obs='' @ str_int (topn_obs_of s) @ '', meta_obs=''
                 @ str_int (meta_obs_of s) @ '', ratio='' @ format_2f ratio))"
proof -
  let ?t = "topn_obs_of s" and ?m = "meta_obs_of s"
  show ?thesis
  proof (cases "?t = 0 \<or> ?m < ?t \<or> 2 * ?t < ?m")
    case True
    then show ?thesis
      by (auto simp: check_totals_sanity_topn_vs_meta_def topn_obs_of_def meta_obs_of_def Let_def)
  next
    case False
    then have "?t \<noteq> 0" "\<bar>?m\<bar> < 2 ^ 1023 * \<bar>?t\<bar>" by auto
    from py_truediv_in_range[OF this] obtain ratio where "py_truediv ?m ?t = Inr ratio" by blast
    with False show ?thesis
      by (auto simp: check_totals_sanity_topn_vs_meta_def topn_obs_of_def meta_obs_of_def Let_def)
  qed
qed

text \<open>
  The spec's figures: 100 and 150 pass with ratio 1.50; the bounds 100 and 200 pass; 90 and
  210 fail; an empty \<^verbatim>\<open>meta_deck_types\<close> counts as 0 and fails; an empty \<^verbatim>\<open>player_decks\<close>
  counts as 0 and fails whatever the meta sum is.
\<close>

theorem totals_check_bounded_ratio_witness:
  "check_totals_sanity_topn_vs_meta (snapshot_conn snap_example)
     = Inr \<lparr>name = ''totals sanity: meta_obs between topn_obs and 2*topn_obs'', ok = True,
            details = ''topn_obs=100, meta_obs=150, ratio=1.50''\<rparr>
   \<and> check_totals_sanity_topn_vs_meta (snapshot_conn (with_meta [(''Hog Cycle'', 100)]))
     = Inr \<lparr>name = ''totals sanity: meta_obs between topn_obs and 2*topn_obs'', ok = True,
            details = ''topn_obs=100, meta_obs=100, ratio=1.00''\<rparr>
   \<and> check_totals_sanity_topn_vs_meta (snapshot_conn (with_meta [(''Hog Cycle'', 200)]))
     = Inr \<lparr>name = ''totals sanity: meta_obs between topn_obs and 2*topn_obs'', ok = True,
            details = ''topn_obs=100, meta_obs=200, ratio=2.00''\<rparr>
   \<and> check_totals_sanity_topn_vs_meta (snapshot_conn (with_meta [(''Hog Cycle'', 90)]))
     = Inr \<lparr>name = ''totals sanity: meta_obs between topn_obs and 2*topn_obs'', ok = False,
            details = ''meta_obs < topn_obs (90 < 100)''\<rparr>
   \<and> check_totals_sanity_topn_vs_meta (snapshot_conn (with_meta [(''Hog Cycle'', 210)]))
     = Inr \<lparr>name = ''totals sanity: meta_obs between topn_obs and 2*topn_obs'', ok = False,
            details = ''meta_obs > 2*topn_obs (210 > 200)''\<rparr>
   \<and> check_totals_sanity_topn_vs_meta (snapshot_conn (with_meta []))
     = Inr \<lparr>name = ''totals sanity: meta_obs between topn_obs and 2*topn_obs'', ok = False,
            details = ''meta_obs < topn_obs (0 < 100)''\<rparr>
   \<and> check_totals_sanity_topn_vs_meta (snapshot_conn snap_no_player_decks)
     = Inr \<lparr>name = ''totals sanity: meta_obs between topn_obs and 2*topn_obs'', ok = False,
            details = ''topn_obs (SUM(player_decks.uses)) is 0; did ETL write player_decks?''\<rparr>"
  using totals_check_bounded_ratio[of snap_example]
  by (simp add: check_totals_sanity_topn_vs_meta_def python_eval snapshot_eval)

subsection \<open>C4: the verdict and the terminating status\<close>

text \<open>
  C4. For any sequence of Check Results, the report ends by raising \<^verbatim>\<open>SystemExit\<close> with
  status 0 exactly when the number of results with \<open>ok = False\<close> is zero, that is when every
  check passed, and with status 1 exactly when at least one check failed; the last line
  printed is the \<^verbatim>\<open>PASSED\<close> line exactly in the first case.
\<close>

theorem verdict_and_exit_status:
  "(exit_status (snd (report checks)) = 0 \<longleftrightarrow> length (filter (\<lambda>c. \<not> ok c) checks) = 0)
   \<and> (exit_status (snd (report checks)) = 0 \<longleftrightarrow> (\<forall>c \<in> set checks. ok c))
   \<and> (exit_status (snd (report checks)) = 1 \<longleftrightarrow> (\<exists>c \<in> set checks. \<not> ok c))
   \<and> (last (fst (report checks)) = newline @ ''[VALIDATE] PASSED.''
        \<longleftrightarrow> length (filter (\<lambda>c. \<not> ok c) checks) = 0)"
proof -
  have "length (filter (\<lambda>c. \<not> ok c) checks) = 0 \<longleftrightarrow> (\<forall>c \<in> set checks. ok c)"
    by (simp add: filter_empty_conv)
  then show ?thesis
    by (auto simp: report_exit report_last_line newline_def)
qed

text \<open>Two results, the second failing: status 1; the first alone: status 0.\<close>

theorem verdict_and_exit_status_witness:
  "report [\<lparr>name = ''meta sanity: meta_deck_types not empty'', ok = True, details = []\<rparr>,
           \<lparr>name = ''player count matches --top-n'', ok = False,
            details = ''player table count = 2, expected 3''\<rparr>]
     = ([newline @ ''[VALIDATE] RESULTS'',
         ''  - OK: meta sanity: meta_deck_types not empty'',
         ''  - FAIL: player count matches --top-n'',
         ''      player table count = 2, expected 3'',
         newline @ ''[VALIDATE] FAILED (1 checks).''],
        SystemExit_code 1)
   \<and> exit_status (snd (report
         [\<lparr>name = ''meta sanity: meta_deck_types not empty'', ok = True, details = []\<rparr>])) = 0"
  using verdict_and_exit_status
          [of "[\<lparr>name = ''meta sanity: meta_deck_types not empty'', ok = True, details = []\<rparr>]"]
  by (simp add: report_def indent_details_def python_eval)

subsection \<open>C5: the connection target\<close>

text \<open>
  C5 says that a target given on the command line is accepted and used, the environment
  being consulted only when it is omitted. The module-level guard decides before the
  command line is read: with \<^verbatim>\<open>DATABASE_URL\<close> unset, the script ends with the message
  \<^verbatim>\<open>DATABASE_URL is not set (and --database-url not provided)\<close> and status 1 although
  \<^verbatim>\<open>--database-url\<close> was provided, whatever the other arguments and whatever would answer
  at that target. \<^verbatim>\<open>_get_database_url\<close>, which \<^verbatim>\<open>main\<close> would have called, accepts the same
  inputs.
\<close>

theorem cli_target_refused_when_environment_unset:
  "script Map.empty (parse_args (Some ''postgresql://localhost/snapshot'') expected ratio) connect
     = ([], SystemExit_msg
              ''[VALIDATE] FAIL: DATABASE_URL is not set (and --database-url not provided).'')
   \<and> exit_status (snd (script Map.empty
         (parse_args (Some ''postgresql://localhost/snapshot'') expected ratio) connect)) = 1
   \<and> get_database_url Map.empty
         (database_url (parse_args (Some ''postgresql://localhost/snapshot'') expected ratio))
     = Inr ''postgresql://localhost/snapshot''"
  by (simp add: script_def getenv_def truthy_def get_database_url_def py_or_def parse_args_def)

subsection \<open>C6: the deck cardinality check\<close>

text \<open>
  C6. The check returns a result that fails exactly when some deck hash of \<^verbatim>\<open>deck_cards\<close>
  has a number of rows other than 8. When it passes (as on an empty table) the details are
  empty. When it fails the details are the heading followed by one line per deck of a
  sample: the sample is not empty, has at most 20 entries with pairwise different hashes,
  and each entry is a hash of the table with its row count, which is not 8. So a deck with
  8 rows has no line.
\<close>

theorem deck_cardinality_check:
  "\<exists>res. check_deck_cards_integrity (snapshot_conn s) = Inr res
     \<and> (\<not> ok res \<longleftrightarrow>
          (\<exists>h \<in> set (map deck_hash (deck_cards s)). count_list (map deck_hash (deck_cards s)) h \<noteq> 8))
     \<and> (ok res \<longrightarrow> details res = [])
     \<and> (\<not> ok res \<longrightarrow>
          (\<exists>sample. sample \<noteq> [] \<and> length sample \<le> 20 \<and> distinct (map fst sample)
             \<and> (\<forall>(h, n) \<in> set sample. h \<in> set (map deck_hash (deck_cards s))
                    \<and> n = int (count_list (map deck_hash (deck_cards s)) h) \<and> n \<noteq> 8)
             \<and> details res = ''Found deck_hash with != 8 cards (showing up to 20):'' @ newline
                                @ py_join newline (map sample_line sample)))"
proof (cases "deck_hash_not_8 (deck_cards s) = []")
  case True
  then show ?thesis
    using deck_hash_not_8_empty[of "deck_cards s"] by (simp add: deck_check_result)
next
  case False
  let ?sample = "deck_hash_not_8 (deck_cards s)"
  have "\<exists>h \<in> set (map deck_hash (deck_cards s)). count_list (map deck_hash (deck_cards s)) h \<noteq> 8"
    using False deck_hash_not_8_empty[of "deck_cards s"] by blast
  moreover have "\<forall>(h, n) \<in> set ?sample. h \<in> set (map deck_hash (deck_cards s))
                    \<and> n = int (count_list (map deck_hash (deck_cards s)) h) \<and> n \<noteq> 8"
    using deck_hash_not_8_set[of _ _ "deck_cards s"] by blast
  ultimately show ?thesis
    using False deck_hash_not_8_length[of "deck_cards s"] deck_hash_not_8_distinct[of "deck_cards s"]
    by (simp add: deck_check_result) blast
qed

text \<open>
  The spec's example (\<open>D1\<close> with 8 rows, \<open>D2\<close> with 7): the check fails and the only sample
  line is that of \<open>D2\<close> with count 7. Without card rows the check passes.
\<close>

theorem deck_cardinality_check_witness:
  "check_deck_cards_integrity (snapshot_conn snap_example)
     = Inr \<lparr>name = ''deck_cards: each deck_hash has exactly 8 cards'', ok = False,
            details = ''Found deck_hash with != 8 cards (showing up to 20):'' @ newline
                      @ ''  D2 -> 7''\<rparr>
   \<and> check_deck_cards_integrity (snapshot_conn (snap_example\<lparr>deck_cards := []\<rparr>))
     = Inr \<lparr>name = ''deck_cards: each deck_hash has exactly 8 cards'', ok = True, details = []\<rparr>"
  using deck_cardinality_check[of snap_example]
  by (simp add: check_deck_cards_integrity_def python_eval snapshot_eval)

subsection \<open>C7: the counters sanity check\<close>

text \<open>
  C7. The check returns a result that passes exactly when every row of each of the five
  stats tables \<^verbatim>\<open>player_decks\<close>, \<^verbatim>\<open>player_type_cards\<close>, \<^verbatim>\<open>meta_deck_types\<close>, \<^verbatim>\<open>meta_type_cards\<close>
  and \<^verbatim>\<open>meta_type_deck_ids\<close> satisfies \<open>0 \<le> wins \<le> uses\<close>, that is when no row has
  \<open>wins > uses\<close>, \<open>wins < 0\<close> or \<open>uses < 0\<close>. All five tables are evaluated; the details are
  the reasons of the tables that have a bad row, in the order of the list, joined by
  \<^verbatim>\<open>"; "\<close>; a reason names the table and the number of its bad rows. A table without bad
  rows gives no reason, and the details of a passing result are empty.
\<close>

theorem counters_sanity_check:
  "\<exists>res. check_wins_uses_sanity (snapshot_conn s) = Inr res
     \<and> (ok res \<longleftrightarrow>
            (\<forall>r \<in> set (player_decks s). 0 \<le> wins r \<and> wins r \<le> uses r)
          \<and> (\<forall>r \<in> set (player_type_cards s). 0 \<le> wins r \<and> wins r \<le> uses r)
          \<and> (\<forall>r \<in> set (meta_deck_types s). 0 \<le> wins r \<and> wins r \<le> uses r)
          \<and> (\<forall>r \<in> set (meta_type_cards s). 0 \<le> wins r \<and> wins r \<le> uses r)
          \<and> (\<forall>r \<in> set (meta_type_deck_ids s). 0 \<le> wins r \<and> wins r \<le> uses r))
     \<and> details res =
          py_join ''; ''
            (map (\<lambda>p. fst p @ '' has '' @ str_int (snd p) @ '' bad rows'')
               (filter (\<lambda>p. 0 < snd p)
                  [(''player_decks'', int (length (filter bad_row (player_decks s)))),
                   (''player_type_cards'', int (length (filter bad_row (player_type_cards s)))),
                   (''meta_deck_types'', int (length (filter bad_row (meta_deck_types s)))),
                   (''meta_type_cards'', int (length (filter bad_row (meta_type_cards s)))),
                   (''meta_type_deck_ids'', int (length (filter bad_row (meta_type_deck_ids s))))]))
     \<and> (ok res \<longrightarrow> details res = [])"
proof -
  let ?bad = "map (\<lambda>p. fst p @ '' has '' @ str_int (snd p) @ '' bad rows'')
                (filter (\<lambda>p. 0 < snd p) (bad_row_counts s))"
  have empty: "?bad = [] \<longleftrightarrow>
            (\<forall>r \<in> set (player_decks s). 0 \<le> wins r \<and> wins r \<le> uses r)
          \<and> (\<forall>r \<in> set (player_type_cards s). 0 \<le> wins r \<and> wins r \<le> uses r)
          \<and> (\<forall>r \<in> set (meta_deck_types s). 0 \<le> wins r \<and> wins r \<le> uses r)
          \<and> (\<forall>r \<in> set (meta_type_cards s). 0 \<le> wins r \<and> wins r \<le> uses r)
          \<and> (\<forall>r \<in> set (meta_type_deck_ids s). 0 \<le> wins r \<and> wins r \<le> uses r)"
    using offending_tables_empty_iff[of s] by simp
  have unfold: "bad_row_counts s =
      [(''player_decks'', int (length (filter bad_row (player_decks s)))),
       (''player_type_cards'', int (length (filter bad_row (player_type_cards s)))),
       (''meta_deck_types'', int (length (filter bad_row (meta_deck_types s)))),
       (''meta_type_cards'', int (length (filter bad_row (meta_type_cards s)))),
       (''meta_type_deck_ids'', int (length (filter bad_row (meta_type_deck_ids s))))]"
    by (simp add: bad_row_counts_def)
  show ?thesis
  proof (cases "?bad = []")
    case True
    then have "check_wins_uses_sanity (snapshot_conn s) =
        Inr \<lparr>name = ''wins/uses sanity (wins<=uses and non-negative)'', ok = True, details = []\<rparr>"
      by (simp add: wins_uses_check_result Let_def)
    with True empty show ?thesis unfolding unfold[symmetric] by simp
  next
    case False
    then have "check_wins_uses_sanity (snapshot_conn s) =
        Inr \<lparr>name = ''wins/uses sanity (wins<=uses and non-negative)'', ok = False,
             details = py_join ''; '' ?bad\<rparr>"
      by (simp add: wins_uses_check_result Let_def)
    with False empty show ?thesis unfolding unfold[symmetric] by simp
  qed
qed

text \<open>
  On the example, \<^verbatim>\<open>player_decks\<close> has the row with 5 uses and 6 wins and
  \<^verbatim>\<open>meta_type_deck_ids\<close> has two bad rows: one reason for each of the two tables. With all
  rows sane the check passes.
\<close>

theorem counters_sanity_check_witness:
  "check_wins_uses_sanity (snapshot_conn snap_example)
     = Inr \<lparr>name = ''wins/uses sanity (wins<=uses and non-negative)'', ok = False,
            details = ''player_decks has 1 bad rows; meta_type_deck_ids has 2 bad rows''\<rparr>
   \<and> check_wins_uses_sanity (snapshot_conn snap_sane)
     = Inr \<lparr>name = ''wins/uses sanity (wins<=uses and non-negative)'', ok = True, details = []\<rparr>"
  using counters_sanity_check[of snap_sane]
  by (simp add: check_wins_uses_sanity_def python_eval snapshot_eval)

subsection \<open>C8: the unresolved-label ratio check\<close>

text \<open>
  C8. With \<open>total\<close> the sum of \<^verbatim>\<open>uses\<close> over \<^verbatim>\<open>meta_deck_types\<close> and \<open>unknown\<close> the sum over
  its rows whose \<^verbatim>\<open>deck_type\<close> is \<^verbatim>\<open>unknown\<close> up to case (empty sums are 0): when \<open>total = 0\<close>
  the check fails; otherwise the float quotient \<open>unknown / total\<close> is computed (it exists
  whenever its magnitude is below \<open>2^1023\<close>), the check fails exactly when the quotient is
  greater than the ceiling under Python's float comparison, so a quotient equal to the
  ceiling passes, and the details carry the quotient as a percentage on both outcomes.
\<close>

theorem unknown_ratio_check:
  "(meta_obs_of s = 0 \<longrightarrow>
      check_unknown_deck_type_explosion (snapshot_conn s) lim =
        Inr \<lparr>name = ''deck_type sanity: unknown ratio'', ok = False,
             details = ''meta_deck_types total uses is 0''\<rparr>)
   \<and> (meta_obs_of s \<noteq> 0 \<and> \<bar>unknown_of s\<bar> < 2 ^ 1023 * \<bar>meta_obs_of s\<bar> \<longrightarrow>
        (\<exists>ratio. py_truediv (unknown_of s) (meta_obs_of s) = Inr ratio))
   \<and> (meta_obs_of s \<noteq> 0 \<and> py_truediv (unknown_of s) (meta_obs_of s) = Inr ratio \<longrightarrow>
        (\<exists>res. check_unknown_deck_type_explosion (snapshot_conn s) lim = Inr res
           \<and> (\<not> ok res \<longleftrightarrow> float_gt ratio lim)
           \<and> details res =
               (if ok res then
                  ''Unknown ratio: '' @ str_int (unknown_of s) @ ''/''
                    @ str_int (meta_obs_of s) @ '' = '' @ format_2pct ratio
                else
                  ''Unknown uses ratio too high: '' @ str_int (unknown_of s) @ ''/''
                    @ str_int (meta_obs_of s) @ '' = '' @ format_2pct ratio
                    @ '' (max '' @ format_2pct lim @ '')'')))"
proof (intro conjI impI)
  assume "meta_obs_of s = 0"
  then show "check_unknown_deck_type_explosion (snapshot_conn s) lim =
        Inr \<lparr>name = ''deck_type sanity: unknown ratio'', ok = False,
             details = ''meta_deck_types total uses is 0''\<rparr>"
    by (rule unknown_check_zero_total)
next
  assume "meta_obs_of s \<noteq> 0 \<and> \<bar>unknown_of s\<bar> < 2 ^ 1023 * \<bar>meta_obs_of s\<bar>"
  then show "\<exists>ratio. py_truediv (unknown_of s) (meta_obs_of s) = Inr ratio"
    using py_truediv_in_range[of "meta_obs_of s" "unknown_of s"] by blast
next
  assume a: "meta_obs_of s \<noteq> 0 \<and> py_truediv (unknown_of s) (meta_obs_of s) = Inr ratio"
  then have "check_unknown_deck_type_explosion (snapshot_conn s) lim =
       Inr (if float_gt ratio lim then
              \<lparr>name = ''deck_type sanity: unknown ratio'', ok = False,
               details = ''Unknown uses ratio too high: '' @ str_int (unknown_of s) @ ''/''
                  @ str_int (meta_obs_of s) @ '' = '' @ format_2pct ratio
                  @ '' (max '' @ format_2pct lim @ '')''\<rparr>
            else
              \<lparr>name = ''deck_type sanity: unknown ratio'', ok = True,
               details = ''Unknown ratio: '' @ str_int (unknown_of s) @ ''/''
                  @ str_int (meta_obs_of s) @ '' = '' @ format_2pct ratio\<rparr>)"
    using unknown_check_ratio[of s ratio lim] by blast
  then show "\<exists>res. check_unknown_deck_type_explosion (snapshot_conn s) lim = Inr res
           \<and> (\<not> ok res \<longleftrightarrow> float_gt ratio lim)
           \<and> details res =
               (if ok res then
                  ''Unknown ratio: '' @ str_int (unknown_of s) @ ''/''
                    @ str_int (meta_obs_of s) @ '' = '' @ format_2pct ratio
                else
                  ''Unknown uses ratio too high: '' @ str_int (unknown_of s) @ ''/''
                    @ str_int (meta_obs_of s) @ '' = '' @ format_2pct ratio
                    @ '' (max '' @ format_2pct lim @ '')'')"
    by (cases "float_gt ratio lim") simp_all
qed

text \<open>
  The spec's figures under the default ceiling 0.30: 25 of 100 passes (the label
  \<^verbatim>\<open>unknown deck\<close> does not count as unresolved), 35 of 100 fails, 30 of 100 (the ceiling
  itself) passes, no unresolved row at all passes with ratio 0, and an empty table fails.
\<close>

theorem unknown_ratio_check_witness:
  "max_unknown_ratio (parse_args None None None) = float_0_30
   \<and> meta_obs_of (with_meta [(''Hog Cycle'', 50), (''unknown deck'', 25), (''Unknown'', 25)]) = 100
   \<and> unknown_of (with_meta [(''Hog Cycle'', 50), (''unknown deck'', 25), (''Unknown'', 25)]) = 25
   \<and> py_truediv 25 100 = Inr (Finite False 4503599627370496 18014398509481984)
   \<and> check_unknown_deck_type_explosion
       (snapshot_conn (with_meta [(''Hog Cycle'', 50), (''unknown deck'', 25), (''Unknown'', 25)])) float_0_30
     = Inr \<lparr>name = ''deck_type sanity: unknown ratio'', ok = True,
            details = ''Unknown ratio: 25/100 = 25.00%''\<rparr>
   \<and> check_unknown_deck_type_explosion
       (snapshot_conn (with_meta [(''unknown'', 20), (''Hog Cycle'', 65), (''UNKNOWN'', 15)])) float_0_30
     = Inr \<lparr>name = ''deck_type sanity: unknown ratio'', ok = False,
            details = ''Unknown uses ratio too high: 35/100 = 35.00% (max 30.00%)''\<rparr>
   \<and> check_unknown_deck_type_explosion
       (snapshot_conn (with_meta [(''Hog Cycle'', 70), (''unknown'', 30)])) float_0_30
     = Inr \<lparr>name = ''deck_type sanity: unknown ratio'', ok = True,
            details = ''Unknown ratio: 30/100 = 30.00%''\<rparr>
   \<and> check_unknown_deck_type_explosion
       (snapshot_conn (with_meta [(''Hog Cycle'', 100)])) float_0_30
     = Inr \<lparr>name = ''deck_type sanity: unknown ratio'', ok = True,
            details = ''Unknown ratio: 0/100 = 0.00%''\<rparr>
   \<and> check_unknown_deck_type_explosion (snapshot_conn (with_meta [])) float_0_30
     = Inr \<lparr>name = ''deck_type sanity: unknown ratio'', ok = False,
            details = ''meta_deck_types total uses is 0''\<rparr>"
proof -
  let ?s = "with_meta [(''Hog Cycle'', 50), (''unknown deck'', 25), (''Unknown'', 25)]"
  let ?ratio = "Finite False 4503599627370496 18014398509481984"
  have sums: "meta_obs_of ?s = 100" "unknown_of ?s = 25"
    by (simp_all add: snapshot_eval)
  have div: "py_truediv 25 100 = Inr ?ratio"
    by (simp add: python_eval)
  have gt: "\<not> float_gt ?ratio float_0_30"
    by (simp add: python_eval)
  from unknown_ratio_check[of ?s float_0_30 ?ratio] sums div
  obtain res where res: "check_unknown_deck_type_explosion (snapshot_conn ?s) float_0_30 = Inr res"
    "\<not> ok res \<longleftrightarrow> float_gt ?ratio float_0_30"
    "details res = (if ok res then ''Unknown ratio: '' @ str_int 25 @ ''/'' @ str_int 100
                      @ '' = '' @ format_2pct ?ratio
                    else ''Unknown uses ratio too high: '' @ str_int 25 @ ''/'' @ str_int 100
                      @ '' = '' @ format_2pct ?ratio @ '' (max '' @ format_2pct float_0_30 @ '')'')"
    by auto
  from res(2) gt have "ok res" by simp
  with res(3) have "details res = ''Unknown ratio: 25/100 = 25.00%''"
    by (simp add: python_eval)
  moreover from res(1) have "name res = ''deck_type sanity: unknown ratio''"
    by (rule unknown_name)
  ultimately have first: "check_unknown_deck_type_explosion (snapshot_conn ?s) float_0_30
     = Inr \<lparr>name = ''deck_type sanity: unknown ratio'', ok = True,
            details = ''Unknown ratio: 25/100 = 25.00%''\<rparr>"
    using res(1) \<open>ok res\<close> by simp
  show ?thesis
    unfolding first
    using sums div unknown_ratio_check[of "with_meta []" float_0_30]
    by (simp add: check_unknown_deck_type_explosion_def python_eval snapshot_eval parse_args_def)
qed

subsection \<open>C9: a failing result has details\<close>

text \<open>
  C9. Whatever the connection answers and whatever the parameters, a Check Result that one
  of the six checks returns with \<open>ok = False\<close> has non-empty details.
\<close>

theorem failing_result_has_details:
  assumes "check_deck_cards_integrity c = Inr res \<or> check_wins_uses_sanity c = Inr res
         \<or> check_meta_not_empty c = Inr res
         \<or> check_expected_topn_player_count c expected = Inr res
         \<or> check_totals_sanity_topn_vs_meta c = Inr res
         \<or> check_unknown_deck_type_explosion c lim = Inr res"
    and "\<not> ok res"
  shows "details res \<noteq> []"
  using assms deck_check_details wins_uses_check_details meta_not_empty_details
    expected_topn_details totals_details unknown_details
  by blast

theorem failing_result_has_details_witness:
  "check_wins_uses_sanity (snapshot_conn snap_example)
     = Inr \<lparr>name = ''wins/uses sanity (wins<=uses and non-negative)'', ok = False,
            details = ''player_decks has 1 bad rows; meta_type_deck_ids has 2 bad rows''\<rparr>
   \<and> \<not> ok \<lparr>name = ''wins/uses sanity (wins<=uses and non-negative)'', ok = False,
            details = ''player_decks has 1 bad rows; meta_type_deck_ids has 2 bad rows''\<rparr>
   \<and> details \<lparr>name = ''wins/uses sanity (wins<=uses and non-negative)'', ok = False,
            details = ''player_decks has 1 bad rows; meta_type_deck_ids has 2 bad rows''\<rparr> \<noteq> []"
proof -
  let ?res = "\<lparr>name = ''wins/uses sanity (wins<=uses and non-negative)'', ok = False,
            details = ''player_decks has 1 bad rows; meta_type_deck_ids has 2 bad rows''\<rparr>"
  have h: "check_wins_uses_sanity (snapshot_conn snap_example) = Inr ?res"
    by (simp add: check_wins_uses_sanity_def python_eval snapshot_eval)
  have "details ?res \<noteq> []"
    by (rule failing_result_has_details[where c = "snapshot_conn snap_example"]) (simp_all add: h)
  with h show ?thesis by simp
qed

subsection \<open>C10: the names of the results\<close>

text \<open>
  C10 as stated (the name at a catalog position is the same on any two runs, the expected
  population size being supplied or omitted) does not hold at the fourth position: on the
  same snapshot the name is \<^verbatim>\<open>player count matches --top-n (skipped)\<close> when \<^verbatim>\<open>--top-n\<close> is
  omitted and \<^verbatim>\<open>player count matches --top-n\<close> when it is given.
\<close>

theorem name_depends_on_top_n_counterexample:
  "map_sum id (map name) (run_checks (snapshot_conn snap_example) None float_0_30)
     = Inr [''deck_cards: each deck_hash has exactly 8 cards'',
            ''wins/uses sanity (wins<=uses and non-negative)'',
            ''meta sanity: meta_deck_types not empty'',
            ''player count matches --top-n (skipped)'',
            ''totals sanity: meta_obs between topn_obs and 2*topn_obs'',
            ''deck_type sanity: unknown ratio'']
   \<and> map_sum id (map name) (run_checks (snapshot_conn snap_example) (Some 2) float_0_30)
     = Inr [''deck_cards: each deck_hash has exactly 8 cards'',
            ''wins/uses sanity (wins<=uses and non-negative)'',
            ''meta sanity: meta_deck_types not empty'',
            ''player count matches --top-n'',
            ''totals sanity: meta_obs between topn_obs and 2*topn_obs'',
            ''deck_type sanity: unknown ratio'']
   \<and> ''player count matches --top-n (skipped)'' \<noteq> ''player count matches --top-n''"
  by (simp add: run_checks_def example_checks)

text \<open>
  C10, amended. On any two runs that return results, over any connections and with any
  parameters and outcomes, the names at every position but the fourth are identical; the
  name at the fourth position (the expected population size check) is
  \<^verbatim>\<open>player count matches --top-n (skipped)\<close> when the expected size is omitted and
  \<^verbatim>\<open>player count matches --top-n\<close> when it is supplied, so all six names are identical on
  two runs that both supply it or both omit it.
\<close>

theorem names_fixed_up_to_skipped:
  assumes "run_checks c1 expected1 lim1 = Inr rs1"
    and "run_checks c2 expected2 lim2 = Inr rs2"
  shows "length rs1 = 6 \<and> length rs2 = 6
       \<and> (\<forall>k < 6. k \<noteq> 3 \<longrightarrow> name (rs1 ! k) = name (rs2 ! k))
       \<and> name (rs1 ! 3) = (if expected1 = None then ''player count matches --top-n (skipped)''
                            else ''player count matches --top-n'')
       \<and> name (rs2 ! 3) = (if expected2 = None then ''player count matches --top-n (skipped)''
                            else ''player count matches --top-n'')
       \<and> ((expected1 = None \<longleftrightarrow> expected2 = None) \<longrightarrow> map name rs1 = map name rs2)"
proof -
  note n1 = run_checks_names[OF assms(1)] and n2 = run_checks_names[OF assms(2)]
  have "length (map name rs1) = 6" unfolding n1 by simp
  then have l1: "length rs1 = 6" by simp
  have "length (map name rs2) = 6" unfolding n2 by simp
  then have l2: "length rs2 = 6" by simp
  have nth1: "\<And>k. k < 6 \<Longrightarrow> name (rs1 ! k) = map name rs1 ! k" using l1 by simp
  have nth2: "\<And>k. k < 6 \<Longrightarrow> name (rs2 ! k) = map name rs2 ! k" using l2 by simp
  have "\<forall>k < 6. k \<noteq> 3 \<longrightarrow> name (rs1 ! k) = name (rs2 ! k)"
  proof (intro allI impI)
    fix k :: nat assume k: "k < 6" "k \<noteq> 3"
    then have "k = 0 \<or> k = 1 \<or> k = 2 \<or> k = 4 \<or> k = 5" by arith
    then have "map name rs1 ! k = map name rs2 ! k"
      unfolding n1 n2 by auto
    with k show "name (rs1 ! k) = name (rs2 ! k)" by (simp add: nth1 nth2)
  qed
  moreover have "name (rs1 ! 3) = (if expected1 = None then ''player count matches --top-n (skipped)''
                            else ''player count matches --top-n'')"
    unfolding nth1[of 3, simplified] n1 by simp
  moreover have "name (rs2 ! 3) = (if expected2 = None then ''player count matches --top-n (skipped)''
                            else ''player count matches --top-n'')"
    unfolding nth2[of 3, simplified] n2 by simp
  moreover have "(expected1 = None \<longleftrightarrow> expected2 = None) \<longrightarrow> map name rs1 = map name rs2"
    unfolding n1 n2 by auto
  ultimately show ?thesis using l1 l2 by blast
qed

text \<open>
  Two runs on the example snapshot, with expected sizes 2 (the check passes) and 3 (it
  fails): the outcomes differ, the six names do not.
\<close>

theorem names_fixed_up_to_skipped_witness:
  "\<exists>rs1 rs2. run_checks (snapshot_conn snap_example) (Some 2) float_0_30 = Inr rs1
      \<and> run_checks (snapshot_conn snap_example) (Some 3) float_0_30 = Inr rs2
      \<and> ok (rs1 ! 3) \<and> \<not> ok (rs2 ! 3) \<and> map name rs1 = map name rs2"
proof -
  obtain rs1 where r1: "run_checks (snapshot_conn snap_example) (Some 2) float_0_30 = Inr rs1"
    and ok1: "ok (rs1 ! 3)"
    by (simp add: run_checks_def example_checks)
  obtain rs2 where r2: "run_checks (snapshot_conn snap_example) (Some 3) float_0_30 = Inr rs2"
    and ok2: "\<not> ok (rs2 ! 3)"
    by (simp add: run_checks_def example_checks)
  from names_fixed_up_to_skipped[OF r1 r2] have "map name rs1 = map name rs2" by simp
  with r1 r2 ok1 ok2 show ?thesis by blast
qed

end
